theory Spec2Isabelle
  imports Complex_Main
begin

section \<open>Template matching of \<open>circus.py\<close>: the OMP peeler and the greedy peeler\<close>

text \<open>
  The source computes in 32-bit floating point (numpy). The model computes the same
  expressions over the real numbers: a float is read as the real it denotes, rounding is
  left out, and the only non-finite value the code writes on purpose, \<open>-np.inf\<close>, is a
  constructor of the type of scores below. Arrays are lists (a matrix is the list of its
  rows), Python integers are \<open>nat\<close> where the code keeps them non-negative and \<open>int\<close>
  where it subtracts.
\<close>

subsection \<open>The stopping threshold of the OMP peeler\<close>

text \<open>
  \<open>CircusOMPPeeler.initialize_and_check_kwargs\<close>, the active assignment:
  \<^verbatim>\<open>d["stop_criteria"] = omp_min_sps * np.maximum(d["norms"],
        np.sqrt(d["noise_levels"].sum() * d["num_samples"]))\<close>
  \<open>np.maximum\<close> broadcasts the scalar against the vector of norms.
\<close>

definition stop_criteria :: "real \<Rightarrow> real list \<Rightarrow> real list \<Rightarrow> nat \<Rightarrow> real list" where
  "stop_criteria omp_min_sps norms noise_levels num_samples =
     map (\<lambda>nrm. omp_min_sps * max nrm (sqrt (sum_list noise_levels * real num_samples))) norms"

subsection \<open>\<open>compute_overlaps\<close>\<close>

text \<open>
  \<open>templates[i]\<close> is an array of \<open>num_samples\<close> rows, one column for each channel of
  \<open>sparsities[i]\<close>. The first loop scatters it into a zero array of shape
  \<open>(num_templates, num_samples, num_channels)\<close>:
  \<^verbatim>\<open>dense_templates[i, :, sparsities[i]] = templates[i].T\<close>
  so that entry \<open>k\<close> of a row goes to channel \<open>sparsities[i][k]\<close>, later entries
  overwriting earlier ones. The initialisers build \<open>sparsities[i]\<close> with \<open>np.nonzero\<close>
  of a boolean mask over the channels, so its entries are distinct and below
  \<open>num_channels\<close>, and as many as the template has columns; numpy raises outside these
  shapes, and the model is meant for them only.
\<close>

definition dense_row :: "nat \<Rightarrow> nat list \<Rightarrow> real list \<Rightarrow> real list" where
  "dense_row num_channels sparsity row =
     fold (\<lambda>(c, v) acc. acc[c := v]) (zip sparsity row) (replicate num_channels 0)"

definition dense_templates ::
  "real list list list \<Rightarrow> nat \<Rightarrow> nat \<Rightarrow> nat list list \<Rightarrow> real list list list" where
  "dense_templates templates num_samples num_channels sparsities =
     map (\<lambda>i. map (\<lambda>t. dense_row num_channels (sparsities ! i) (templates ! i ! t))
                 [0..<num_samples])
         [0..<length templates]"

definition dot :: "real list \<Rightarrow> real list \<Rightarrow> real" where
  "dot xs ys = sum_list (map2 (*) xs ys)"

text \<open>
  One pass of the loop over the delays:
  \<^verbatim>\<open>source = dense_templates[:, :delay, :].reshape(num_templates, -1)
target = dense_templates[:, num_samples - delay :, :].reshape(num_templates, -1)
overlaps[delay] = scipy.sparse.csr_matrix(source.dot(target.T))\<close>
  A sparse matrix holds the same entries as the dense one, so it is modelled by the
  dense one.
\<close>

definition delay_product :: "real list list list \<Rightarrow> nat \<Rightarrow> nat \<Rightarrow> real list list" where
  "delay_product dense num_samples delay =
     (let source = map (\<lambda>w. concat (take delay w)) dense;
          target = map (\<lambda>w. concat (drop (num_samples - delay) w)) dense
      in map (\<lambda>s. map (\<lambda>t. dot s t) target) source)"

definition mat_T :: "real list list \<Rightarrow> real list list" where
  "mat_T X = map (\<lambda>j. map (\<lambda>i. X ! i ! j) [0..<length X]) [0..<length X]"

text \<open>
  The dictionary \<open>overlaps\<close>, filled by
  \<^verbatim>\<open>for delay in all_delays:          # range(0, num_samples + 1)
    ...
    overlaps[delay] = ...
    if delay < num_samples:
        overlaps[size - delay + 1] = overlaps[delay].T.tocsr()\<close>
  with \<open>size = 2 * num_samples - 1\<close>. The key \<open>size - delay + 1\<close> is only computed for
  \<open>delay < num_samples\<close>, where \<open>size\<close> is positive, so natural numbers hold it.
\<close>

definition overlaps_step ::
  "real list list list \<Rightarrow> nat \<Rightarrow> nat \<Rightarrow> (nat \<rightharpoonup> real list list) \<Rightarrow> (nat \<rightharpoonup> real list list)" where
  "overlaps_step dense num_samples delay overlaps =
     (let size = 2 * num_samples - 1;
          X = delay_product dense num_samples delay;
          overlaps1 = overlaps(delay \<mapsto> X)
      in if delay < num_samples then overlaps1(size - delay + 1 \<mapsto> mat_T X) else overlaps1)"

definition overlaps_dict :: "real list list list \<Rightarrow> nat \<Rightarrow> (nat \<rightharpoonup> real list list)" where
  "overlaps_dict dense num_samples =
     fold (overlaps_step dense num_samples) [0..<num_samples + 1] Map.empty"

text \<open>
  The second loop restacks the dictionary, one matrix for each template:
  \<^verbatim>\<open>for i in range(num_templates):
    data = [overlaps[j][i, :].T for j in range(size)]
    data = scipy.sparse.hstack(data)\<close>
  Column \<open>j\<close> of the \<open>i\<close>-th result is row \<open>i\<close> of \<open>overlaps[j]\<close>. A key that is not in
  the dictionary raises \<open>KeyError\<close>: the result \<open>None\<close>.
\<close>

definition compute_overlaps ::
  "real list list list \<Rightarrow> nat \<Rightarrow> nat \<Rightarrow> nat list list \<Rightarrow> real list list list option" where
  "compute_overlaps templates num_samples num_channels sparsities =
     (let num_templates = length templates;
          dense = dense_templates templates num_samples num_channels sparsities;
          size = 2 * num_samples - 1;
          overlaps = overlaps_dict dense num_samples
      in case those (map overlaps [0..<size]) of
           None \<Rightarrow> None
         | Some mats \<Rightarrow>
             Some (map (\<lambda>i. map (\<lambda>m. map (\<lambda>X. X ! i ! m) mats) [0..<num_templates])
                       [0..<num_templates]))"



subsection \<open>Scores, detections and numpy helpers\<close>

text \<open>
  An entry of \<open>scalar_products\<close> is a float that the code may overwrite with \<open>-np.inf\<close>.
  Adding a finite number to \<open>-inf\<close> gives \<open>-inf\<close>, and \<open>-inf\<close> is below every finite number.
\<close>

datatype score = NegInf | Fin real

fun score_add :: "score \<Rightarrow> real \<Rightarrow> score" where
  "score_add NegInf x = NegInf"
| "score_add (Fin a) x = Fin (a + x)"


fun score_lt :: "score \<Rightarrow> real \<Rightarrow> bool" where
  "score_lt NegInf x = True"
| "score_lt (Fin a) x = (a < x)"

text \<open>
  A row of \<open>spike_dtype\<close>. The field \<open>segment_index\<close> is never written by either
  \<open>main_function\<close> (the array comes from \<open>np.empty\<close>), so it has no counterpart here.
\<close>

record spike =
  sample_index :: int
  channel_index :: nat
  cluster_index :: nat
  amplitude :: real

datatype error = IndexError | ValueError

text \<open>
  \<open>spikes[np.argsort(spikes["sample_index"])]\<close>. The default kind of \<open>np.argsort\<close> does not
  promise an order among equal keys; the model takes the stable order, and the
  statements below do not depend on that choice.
\<close>

definition argsort_spikes :: "spike list \<Rightarrow> spike list" where
  "argsort_spikes spikes = sort_key sample_index spikes"

text \<open>
  \<open>xs[start:stop]\<close> for a list of rows: a negative bound counts from the end, and both
  bounds are clipped to the list.
\<close>

definition py_slice :: "'a list \<Rightarrow> int \<Rightarrow> int \<Rightarrow> 'a list" where
  "py_slice xs start stop =
     (let n = int (length xs);
          clip = (\<lambda>i. if i < 0 then max 0 (n + i) else min n i);
          lo = nat (clip start); hi = nat (clip stop)
      in take (hi - lo) (drop lo xs))"

text \<open>
  \<open>xs[i]\<close> with an integer index: a negative index counts from the end, an index outside
  the list raises \<open>IndexError\<close>.
\<close>

definition py_nth :: "'a list \<Rightarrow> int \<Rightarrow> 'a option" where
  "py_nth xs i =
     (let n = int (length xs); j = (if i < 0 then n + i else i)
      in if 0 \<le> j \<and> j < n then Some (xs ! nat j) else None)"

text \<open>
  \<open>np.searchsorted(a, v)\<close> (side \<open>left\<close>) on an ascending array: the number of entries
  below \<open>v\<close>.
\<close>

definition searchsorted :: "int list \<Rightarrow> int \<Rightarrow> nat" where
  "searchsorted a v = length (takeWhile (\<lambda>x. x < v) a)"

text \<open>
  \<open>np.unique(xs, return_index=True)\<close>: the distinct values in ascending order, and for
  each of them the index of its first occurrence in \<open>xs\<close>.
\<close>

definition first_index :: "int list \<Rightarrow> int \<Rightarrow> nat" where
  "first_index xs v = length (takeWhile (\<lambda>x. x \<noteq> v) xs)"

definition np_unique :: "int list \<Rightarrow> int list \<times> nat list" where
  "np_unique xs = (let vals = sort (remdups xs) in (vals, map (first_index xs) vals))"

text \<open>
  An assignment to the slice \<open>row[lo:hi]\<close> with \<open>0 \<le> lo\<close> and \<open>hi \<le> len(row)\<close>: entry \<open>q\<close>
  with \<open>lo \<le> q < hi\<close> becomes \<open>g (q - lo) (row[q])\<close>, where \<open>q - lo\<close> is the position in
  the slice; the other entries stay.
\<close>

definition slice_update :: "nat \<Rightarrow> nat \<Rightarrow> (nat \<Rightarrow> 'a \<Rightarrow> 'a) \<Rightarrow> 'a list \<Rightarrow> 'a list" where
  "slice_update lo hi g row =
     map (\<lambda>q. if lo \<le> q \<and> q < hi then g (q - lo) (row ! q) else row ! q) [0..<length row]"

text \<open>
  \<open>values[is_valid].argmax()\<close> followed by the look-up of the position: the candidates
  are listed in row-major order with their values, and \<open>argmax\<close> returns the first
  candidate of maximal value.
\<close>

fun argmax_first :: "real \<times> nat \<times> nat \<Rightarrow> (real \<times> nat \<times> nat) list \<Rightarrow> real \<times> nat \<times> nat" where
  "argmax_first best [] = best"
| "argmax_first best (x # xs) =
     (if fst best < fst x then argmax_first x xs else argmax_first best xs)"

subsection \<open>The greedy peeler: \<open>CircusPeeler.main_function\<close>\<close>

text \<open>
  The entries of the dictionary \<open>d\<close> that \<open>main_function\<close> reads. \<open>templates\<close> is the
  matrix of flattened normalised templates (dense or sparse, the entries are the same),
  \<open>amplitudes\<close> the band of each template, \<open>overlaps\<close> the table of \<open>compute_overlaps\<close>.
  \<open>peak_sign\<close>, \<open>abs_threholds\<close> and \<open>exclude_sweep_size\<close> are only handed to the peak
  detector \<open>DetectPeakByChannel.detect_peaks\<close>, which is not part of this file: the
  detector, with these three arguments fixed, is the parameter \<open>detect_peaks\<close> below,
  from the trimmed traces to the peak times and the peak channels.
\<close>

record greedy_params =
  templates_gp :: "real list list"
  num_templates_gp :: nat
  overlaps_gp :: "real list list list"
  margin_gp :: nat
  norms_gp :: "real list"
  jitter_gp :: int
  patch_sizes_gp :: "nat \<times> nat"
  nbefore_gp :: nat
  nafter_gp :: nat
  amplitudes_gp :: "(real \<times> real) list"
  sym_patch_gp :: bool

text \<open>
  The peaks that are scored:
  \<^verbatim>\<open>if jitter > 0:
    jittered_peaks = peak_sample_index[:, np.newaxis] + np.arange(-jitter, jitter)
    jittered_channels = peak_chan_ind[:, np.newaxis] + np.zeros(2 * jitter)
    mask = (jittered_peaks > 0) & (jittered_peaks < len(peak_traces))
    jittered_peaks = jittered_peaks[mask]
    jittered_channels = jittered_channels[mask]
    peak_sample_index, unique_idx = np.unique(jittered_peaks, return_index=True)
    peak_chan_ind = jittered_channels[unique_idx]
else:
    peak_sample_index, unique_idx = np.unique(peak_sample_index, return_index=True)
    peak_chan_ind = peak_chan_ind[unique_idx]\<close>
  A boolean mask on a matrix selects its entries in row-major order.
\<close>

definition jitter_peaks :: "int \<Rightarrow> nat \<Rightarrow> int list \<Rightarrow> nat list \<Rightarrow> int list \<times> nat list" where
  "jitter_peaks jitter len_peak_traces peak_sample_index peak_chan_ind =
     (if 0 < jitter then
        let jittered = concat (map (\<lambda>(t, c). map (\<lambda>j. (t + j, c)) [- jitter..jitter - 1])
                                   (zip peak_sample_index peak_chan_ind));
            masked = filter (\<lambda>(t, c). 0 < t \<and> t < int len_peak_traces) jittered;
            (times, unique_idx) = np_unique (map fst masked)
        in (times, map (\<lambda>i. snd (masked ! i)) unique_idx)
      else
        let (times, unique_idx) = np_unique peak_sample_index
        in (times, map (\<lambda>i. peak_chan_ind ! i) unique_idx))"

text \<open>
  The snippets, one for each peak, flattened:
  \<^verbatim>\<open>if sym_patch:
    snippets = extract_patches_2d(traces, patch_sizes)[peak_sample_index]
    peak_sample_index += margin // 2
else:
    peak_sample_index += margin // 2
    snippet_window = np.arange(-d["nbefore"], d["nafter"])
    snippets = traces[peak_sample_index[:, np.newaxis] + snippet_window]\<close>
  \<open>patch_sizes\<close> is \<open>(nsamples, num_channels)\<close>, so a patch spans all channels and patch
  \<open>k\<close> is made of the rows \<open>k, \<dots>, k + nsamples - 1\<close> of \<open>traces\<close>; \<open>extract_patches_2d\<close>
  raises \<open>ValueError\<close> for a patch that is taller than the traces.
\<close>

definition extract_patches :: "real list list \<Rightarrow> nat \<Rightarrow> real list list list" where
  "extract_patches traces patch_rows =
     map (\<lambda>k. take patch_rows (drop k traces)) [0..<length traces + 1 - patch_rows]"

definition those_or_raise :: "'a option list \<Rightarrow> error + 'a list" where
  "those_or_raise xs = (case those xs of None \<Rightarrow> Inl IndexError | Some ys \<Rightarrow> Inr ys)"

definition greedy_snippets ::
  "greedy_params \<Rightarrow> real list list \<Rightarrow> int list \<Rightarrow> error + real list list" where
  "greedy_snippets d traces peak_sample_index =
     (if sym_patch_gp d then
        if length traces < fst (patch_sizes_gp d) then Inl ValueError
        else case those_or_raise
               (map (py_nth (extract_patches traces (fst (patch_sizes_gp d)))) peak_sample_index) of
          Inl e \<Rightarrow> Inl e
        | Inr patches \<Rightarrow> Inr (map concat patches)
      else
        case those_or_raise
               (map (\<lambda>t. those (map (\<lambda>w. py_nth traces (t + int (margin_gp d div 2) + w))
                                     [- int (nbefore_gp d)..int (nafter_gp d) - 1]))
                    peak_sample_index) of
          Inl e \<Rightarrow> Inl e
        | Inr snippets \<Rightarrow> Inr (map concat snippets))"

text \<open>
  The score matrix:
  \<^verbatim>\<open>if num_peaks > 0:
    snippets = snippets.reshape(num_peaks, -1)
    scalar_products = templates.dot(snippets.T)
else:
    scalar_products = np.zeros((num_templates, 0), dtype=np.float32)\<close>
\<close>

definition greedy_scores :: "greedy_params \<Rightarrow> real list list \<Rightarrow> score list list" where
  "greedy_scores d snippets =
     (if 0 < length snippets then
        map (\<lambda>w. map (\<lambda>s. Fin (dot w s)) snippets) (templates_gp d)
      else replicate (num_templates_gp d) [])"

text \<open>
  The validity mask
  \<^verbatim>\<open>min_sps = (amplitudes[:, 0] * norms)[:, np.newaxis]
max_sps = (amplitudes[:, 1] * norms)[:, np.newaxis]
is_valid = (scalar_products > min_sps) & (scalar_products < max_sps)\<close>
  as the list of the valid positions with their scores, in row-major order.
\<close>

definition min_sps :: "greedy_params \<Rightarrow> nat \<Rightarrow> real" where
  "min_sps d n = fst (amplitudes_gp d ! n) * norms_gp d ! n"

definition max_sps :: "greedy_params \<Rightarrow> nat \<Rightarrow> real" where
  "max_sps d n = snd (amplitudes_gp d ! n) * norms_gp d ! n"

definition greedy_valid :: "greedy_params \<Rightarrow> score list list \<Rightarrow> (real \<times> nat \<times> nat) list" where
  "greedy_valid d scalar_products =
     concat (map (\<lambda>n. concat (map (\<lambda>p.
               case scalar_products ! n ! p of
                 NegInf \<Rightarrow> []
               | Fin v \<Rightarrow> if min_sps d n < v \<and> v < max_sps d n then [(v, n, p)] else [])
             [0..<length (scalar_products ! n)]))
       [0..<length scalar_products])"

text \<open>
  One pass of the \<open>while\<close> loop, for the selected position \<open>(best_cluster_ind, peak_index)\<close>
  and its score \<open>best_amplitude\<close>:
  \<^verbatim>\<open>peak_data = peak_sample_index - peak_sample_index[peak_index]
is_valid_nn = np.searchsorted(peak_data, [-neighbor_window, neighbor_window + 1])
idx_neighbor = peak_data[is_valid_nn[0] : is_valid_nn[1]] + neighbor_window
to_add = -best_amplitude * cached_overlaps[best_cluster_ind][:, idx_neighbor]
scalar_products[:, is_valid_nn[0] : is_valid_nn[1]] += to_add
scalar_products[best_cluster_ind, is_valid_nn[0] : is_valid_nn[1]] = -np.inf\<close>
  and the detection is appended. \<open>cached_overlaps[n]\<close> is \<open>overlaps[n]\<close> as a dense array.
\<close>

definition greedy_iteration ::
  "greedy_params \<Rightarrow> int list \<Rightarrow> nat list \<Rightarrow> real \<times> nat \<times> nat \<Rightarrow>
   score list list \<times> spike list \<Rightarrow> score list list \<times> spike list" where
  "greedy_iteration d peak_sample_index peak_chan_ind best st =
     (let (best_amplitude, best_cluster_ind, peak_index) = best;
          (scalar_products, spikes) = st;
          neighbor_window = int (nafter_gp d + nbefore_gp d) - 1;
          peak_data = map (\<lambda>t. t - peak_sample_index ! peak_index) peak_sample_index;
          lo = searchsorted peak_data (- neighbor_window);
          hi = searchsorted peak_data (neighbor_window + 1);
          idx_neighbor = map (\<lambda>x. x + neighbor_window) (take (hi - lo) (drop lo peak_data));
          to_add = map (\<lambda>row. map (\<lambda>i. - best_amplitude * row ! nat i) idx_neighbor)
                       (overlaps_gp d ! best_cluster_ind);
          added = map (\<lambda>m. slice_update lo hi (\<lambda>k s. score_add s (to_add ! m ! k))
                                 (scalar_products ! m))
                      [0..<length scalar_products];
          cleared = added[best_cluster_ind :=
                            slice_update lo hi (\<lambda>k s. NegInf) (added ! best_cluster_ind)]
      in (cleared,
          spikes @ [\<lparr>sample_index = peak_sample_index ! peak_index,
                     channel_index = peak_chan_ind ! peak_index,
                     cluster_index = best_cluster_ind,
                     amplitude = best_amplitude\<rparr>]))"

text \<open>
  The loop \<open>while np.any(is_valid)\<close>. Nothing in the code bounds the number of passes, so
  the loop is a partial function: \<open>None\<close> stands for a loop that does not end.
\<close>

partial_function (option) greedy_loop ::
  "greedy_params \<Rightarrow> int list \<Rightarrow> nat list \<Rightarrow> score list list \<times> spike list \<Rightarrow>
   (score list list \<times> spike list) option" where
  "greedy_loop d peak_sample_index peak_chan_ind st =
     (case greedy_valid d (fst st) of
        [] \<Rightarrow> Some st
      | x # xs \<Rightarrow>
          greedy_loop d peak_sample_index peak_chan_ind
            (greedy_iteration d peak_sample_index peak_chan_ind (argmax_first x xs) st))"

declare greedy_loop.simps [code]

text \<open>
  After the loop:
  \<^verbatim>\<open>spikes["amplitude"][:num_spikes] /= norms[spikes["cluster_index"][:num_spikes]]
spikes = spikes[:num_spikes]
order = np.argsort(spikes["sample_index"])
spikes = spikes[order]\<close>
\<close>

definition greedy_finish :: "greedy_params \<Rightarrow> spike list \<Rightarrow> spike list" where
  "greedy_finish d spikes =
     argsort_spikes
       (map (\<lambda>s. s\<lparr>amplitude := amplitude s / norms_gp d ! cluster_index s\<rparr>) spikes)"

text \<open>
  \<open>CircusPeeler.main_function\<close>. The result is \<open>None\<close> when the loop does not end,
  \<open>Some (Inl e)\<close> when the code raises, \<open>Some (Inr spikes)\<close> when it returns \<open>spikes\<close>.
\<close>

definition greedy_main ::
  "(real list list \<Rightarrow> int list \<times> nat list) \<Rightarrow> greedy_params \<Rightarrow> real list list \<Rightarrow>
   (error + spike list) option" where
  "greedy_main detect_peaks d traces =
     (let margin = int (margin_gp d);
          peak_traces = py_slice traces (margin div 2) (- margin div 2);
          (peak_sample_index0, peak_chan_ind0) = detect_peaks peak_traces;
          (peak_sample_index1, peak_chan_ind) =
             jitter_peaks (jitter_gp d) (length peak_traces) peak_sample_index0 peak_chan_ind0
      in case greedy_snippets d traces peak_sample_index1 of
           Inl e \<Rightarrow> Some (Inl e)
         | Inr snippets \<Rightarrow>
             (let peak_sample_index = map (\<lambda>t. t + margin div 2) peak_sample_index1
              in case greedy_loop d peak_sample_index peak_chan_ind
                        (greedy_scores d snippets, []) of
                   None \<Rightarrow> None
                 | Some (scalar_products, spikes) \<Rightarrow> Some (Inr (greedy_finish d spikes))))"

subsection \<open>The OMP peeler: \<open>CircusOMPPeeler.main_function\<close>\<close>

text \<open>
  The entries of \<open>d\<close> that \<open>main_function\<close> uses. \<open>spatial\<close> has the shape
  \<open>(rank, num_templates, num_channels)\<close>, \<open>singular\<close> the shape \<open>(rank, num_templates, 1)\<close>
  and \<open>temporal\<close> the shape \<open>(rank, num_templates, num_samples)\<close>, with
  \<open>num_samples = nbefore + nafter\<close>; each table of \<open>overlaps\<close> has \<open>num_templates\<close> rows
  and \<open>2 * num_samples - 1\<close> columns. The model is meant for dictionaries of these shapes.
\<close>

record omp_params =
  num_templates_op :: nat
  overlaps_op :: "real list list list"
  norms_op :: "real list"
  nbefore_op :: nat
  nafter_op :: nat
  amplitudes_op :: "real \<times> real"
  ignored_ids_op :: "nat list"
  stop_criteria_op :: "real list"
  vicinity_op :: int
  spatial_op :: "real list list list"
  singular_op :: "real list list"
  temporal_op :: "real list list list"

text \<open>\<open>np.finfo(np.float32).eps\<close>\<close>

definition omp_tol :: real where
  "omp_tol = 1 / 2 ^ 23"

text \<open>
  The scores:
  \<^verbatim>\<open>spatially_filtered_data = np.matmul(d["spatial"], traces.T[np.newaxis, :, :])
scaled_filtered_data = spatially_filtered_data * d["singular"]
objective_by_rank = scipy.signal.oaconvolve(scaled_filtered_data, d["temporal"], axes=2, mode="valid")
scalar_products += np.sum(objective_by_rank, axis=0)
if len(ignored_ids) > 0:
    scalar_products[ignored_ids] = -np.inf\<close>
  \<open>oaconvolve\<close> computes the convolution by the overlap-add method; the model takes the
  convolution itself, in mode \<open>valid\<close>, for a first argument at least as long as the
  second. \<open>omp_scores\<close> is the value of these lines where they raise nothing; the inputs
  on which they raise (traces whose channels do not fit \<open>spatial\<close>, traces shorter than a
  template, an ignored id that is not the index of a template) are told apart in
  \<open>omp_main\<close> below, before \<open>omp_scores\<close> is used.
\<close>

definition valid_convolve :: "real list \<Rightarrow> real list \<Rightarrow> real list" where
  "valid_convolve x h =
     map (\<lambda>k. sum_list (map (\<lambda>j. x ! (k + length h - 1 - j) * h ! j) [0..<length h]))
         [0..<length x + 1 - length h]"

definition omp_scores :: "omp_params \<Rightarrow> real list list \<Rightarrow> nat \<Rightarrow> score list list" where
  "omp_scores d traces num_peaks =
     map (\<lambda>n.
            if n \<in> set (ignored_ids_op d) then replicate num_peaks NegInf
            else map (\<lambda>k. Fin (0 + sum_list (map (\<lambda>r.
                        valid_convolve
                          (map (\<lambda>row. dot (spatial_op d ! r ! n) row * singular_op d ! r ! n) traces)
                          (temporal_op d ! r ! n) ! k)
                      [0..<length (spatial_op d)])))
                   [0..<num_peaks])
         [0..<num_templates_op d]"

text \<open>
  The state of the loop. \<open>M\<close> is a square array of floats that is replaced by a larger one
  when it is full; it is modelled by its entries and its number of rows. \<open>selection\<close> is
  the filled part \<open>all_selections[:, :num_selection]\<close>, a list of pairs
  \<open>(cluster, peak)\<close>. The dictionaries \<open>cached_overlaps\<close> and \<open>neighbors\<close> memoise values
  that depend on their key only (a table of \<open>overlaps\<close> as a dense array, the bounds of a
  window), so the model recomputes them.
\<close>

record omp_state =
  scalar_products_st :: "score list list"
  M_st :: "nat \<Rightarrow> nat \<Rightarrow> real"
  M_shape_st :: nat
  selection_st :: "(nat \<times> nat) list"
  final_amplitudes_st :: "real list list"

definition omp_init :: "omp_params \<Rightarrow> score list list \<Rightarrow> nat \<Rightarrow> omp_state" where
  "omp_init d scalar_products num_peaks =
     \<lparr>scalar_products_st = scalar_products,
      M_st = (\<lambda>i j. 0),
      M_shape_st = 100,
      selection_st = [],
      final_amplitudes_st = replicate (num_templates_op d) (replicate num_peaks 0)\<rparr>"

text \<open>\<open>is_valid = scalar_products > stop_criteria\<close>, as the list of the valid positions.\<close>

definition omp_valid :: "omp_params \<Rightarrow> score list list \<Rightarrow> (real \<times> nat \<times> nat) list" where
  "omp_valid d scalar_products =
     concat (map (\<lambda>n. concat (map (\<lambda>p.
               case scalar_products ! n ! p of
                 NegInf \<Rightarrow> []
               | Fin v \<Rightarrow> if stop_criteria_op d ! n < v then [(v, n, p)] else [])
             [0..<length (scalar_products ! n)]))
       [0..<length scalar_products])"

text \<open>
  \<open>scipy.linalg.solve_triangular(A, b, trans=0, lower=1)\<close>: forward substitution, reading
  the lower triangle of \<open>A\<close>. The matrix is given by its entries.
\<close>

definition solve_lower :: "(nat \<Rightarrow> nat \<Rightarrow> real) \<Rightarrow> real list \<Rightarrow> real list" where
  "solve_lower A b =
     fold (\<lambda>a xs. xs @ [(b ! a - sum_list (map (\<lambda>c. A a c * xs ! c) [0..<a])) / A a a])
          [0..<length b] []"

text \<open>
  \<open>potrs(A, b, lower=True)\<close>: the solution of \<open>A A\<^sup>T x = b\<close> for a lower triangular \<open>A\<close>,
  by a forward and a backward substitution.
\<close>

definition solve_upper_T :: "(nat \<Rightarrow> nat \<Rightarrow> real) \<Rightarrow> real list \<Rightarrow> real list" where
  "solve_upper_T A y =
     fold (\<lambda>a xs. xs[a := (y ! a - sum_list (map (\<lambda>c. A c a * xs ! c) [Suc a..<length y])) / A a a])
          (rev [0..<length y]) (replicate (length y) 0)"

definition potrs :: "(nat \<Rightarrow> nat \<Rightarrow> real) \<Rightarrow> real list \<Rightarrow> real list" where
  "potrs A b = solve_upper_T A (solve_lower A b)"

definition nrm2 :: "real list \<Rightarrow> real" where
  "nrm2 xs = sqrt (sum_list (map (\<lambda>x. x\<^sup>2) xs))"

text \<open>
  The first half of a pass, for the selected position \<open>(best_cluster_ind, peak_index)\<close>:
  the new row of \<open>M\<close>.
  \<^verbatim>\<open>if num_selection > 0:
    delta_t = selection[1] - peak_index
    idx = np.where((delta_t < neighbor_window) & (delta_t > -num_samples))[0]
    myline = num_samples + delta_t[idx]
    if num_selection == M.shape[0]:
        Z = np.zeros((2 * num_selection, 2 * num_selection), dtype=np.float32)
        Z[:num_selection, :num_selection] = M
        M = Z
    M[num_selection, idx] = cached_overlaps[best_cluster_ind][selection[0, idx], myline]
    if vicinity == 0:
        scipy.linalg.solve_triangular(M[:num_selection, :num_selection],
            M[num_selection, :num_selection], trans=0, lower=1, overwrite_b=True, check_finite=False)
        v = nrm2(M[num_selection, :num_selection]) ** 2
        Lkk = 1 - v
        if Lkk <= omp_tol:  # selected atoms are dependent
            break
        M[num_selection, num_selection] = np.sqrt(Lkk)
    else:
        is_in_vicinity = np.where(np.abs(delta_t) < vicinity)[0]
        if len(is_in_vicinity) > 0:
            L = M[is_in_vicinity, :][:, is_in_vicinity]
            M[num_selection, is_in_vicinity] = scipy.linalg.solve_triangular(
                L, M[num_selection, is_in_vicinity], trans=0, lower=1, overwrite_b=True, check_finite=False)
            v = nrm2(M[num_selection, is_in_vicinity]) ** 2
            Lkk = 1 - v
            if Lkk <= omp_tol:  # selected atoms are dependent
                break
            M[num_selection, num_selection] = np.sqrt(Lkk)
        else:
            M[num_selection, num_selection] = 1.0
else:
    M[0, 0] = 1\<close>
  With \<open>overwrite_b=True\<close> the solution replaces the right-hand side
  \<open>M[num_selection, :num_selection]\<close> in place. \<open>omp_cholesky\<close> returns the array after the
  row has been written and solved, its number of rows, and \<open>Lkk\<close> where the code computes
  it (\<open>None\<close> on the two paths that set the diagonal entry to 1).
\<close>

definition set_row :: "(nat \<Rightarrow> nat \<Rightarrow> real) \<Rightarrow> nat \<Rightarrow> nat list \<Rightarrow> real list \<Rightarrow> (nat \<Rightarrow> nat \<Rightarrow> real)" where
  "set_row M i cols vals = fold (\<lambda>(j, v) M'. M'(i := (M' i)(j := v))) (zip cols vals) M"

definition omp_cholesky ::
  "omp_params \<Rightarrow> nat \<times> nat \<Rightarrow> omp_state \<Rightarrow> (nat \<Rightarrow> nat \<Rightarrow> real) \<times> nat \<times> real option" where
  "omp_cholesky d best st =
     (let (best_cluster_ind, peak_index) = best;
          num_samples = nafter_op d + nbefore_op d;
          neighbor_window = int num_samples - 1;
          selection = selection_st st;
          num_selection = length selection
      in if 0 < num_selection then
           let delta_t = map (\<lambda>(c, p). int p - int peak_index) selection;
               idx = filter (\<lambda>i. delta_t ! i < neighbor_window \<and> - int num_samples < delta_t ! i)
                            [0..<num_selection];
               myline = map (\<lambda>i. int num_samples + delta_t ! i) idx;
               (M0, shape) =
                  (if num_selection = M_shape_st st
                   then (\<lambda>i j. if i < num_selection \<and> j < num_selection then M_st st i j else 0,
                         2 * num_selection)
                   else (M_st st, M_shape_st st));
               M1 = set_row M0 num_selection idx
                      (map (\<lambda>(i, l). overlaps_op d ! best_cluster_ind ! fst (selection ! i) ! nat l)
                           (zip idx myline))
           in if vicinity_op d = 0 then
                let x = solve_lower M1 (map (M1 num_selection) [0..<num_selection]);
                    M2 = set_row M1 num_selection [0..<num_selection] x
                in (M2, shape, Some (1 - (nrm2 x)\<^sup>2))
              else
                let is_in_vicinity = filter (\<lambda>i. \<bar>delta_t ! i\<bar> < vicinity_op d) [0..<num_selection]
                in if 0 < length is_in_vicinity then
                     let x = solve_lower (\<lambda>a c. M1 (is_in_vicinity ! a) (is_in_vicinity ! c))
                                         (map (M1 num_selection) is_in_vicinity);
                         M2 = set_row M1 num_selection is_in_vicinity x
                     in (M2, shape, Some (1 - (nrm2 x)\<^sup>2))
                   else (M1, shape, None)
         else (M_st st, M_shape_st st, None))"

text \<open>
  The second half of a pass: the amplitudes of all selected atoms are fitted again and
  the scores are updated.
  \<^verbatim>\<open>all_selections[:, num_selection] = [best_cluster_ind, peak_index]
num_selection += 1
selection = all_selections[:, :num_selection]
res_sps = full_sps[selection[0], selection[1]]
all_amplitudes, _ = potrs(M[:num_selection, :num_selection], res_sps, lower=True, overwrite_b=False)
all_amplitudes /= norms[selection[0]]
diff_amplitudes = all_amplitudes - final_amplitudes[selection[0], selection[1]]
modified = np.where(np.abs(diff_amplitudes) > omp_tol)[0]
final_amplitudes[selection[0], selection[1]] = all_amplitudes
for i in modified:
    tmp_best, tmp_peak = selection[:, i]
    diff_amp = diff_amplitudes[i] * norms[tmp_best]
    idx = [max(0, tmp_peak - num_samples), min(num_peaks, tmp_peak + neighbor_window)]
    tdx = [num_samples + idx[0] - tmp_peak, num_samples + idx[1] - tmp_peak]
    to_add = diff_amp * cached_overlaps[tmp_best][:, tdx[0] : tdx[1]]
    scalar_products[:, idx[0] : idx[1]] -= to_add\<close>
  A selected position of \<open>full_sps\<close> held a score above the threshold when it was
  selected, so it is finite; \<open>score_value\<close> reads it.
\<close>

fun score_value :: "score \<Rightarrow> real" where
  "score_value (Fin v) = v"
| "score_value NegInf = 0"

definition set_entries :: "real list list \<Rightarrow> (nat \<times> nat) list \<Rightarrow> real list \<Rightarrow> real list list" where
  "set_entries A positions vals =
     fold (\<lambda>((n, p), v) A'. A'[n := (A' ! n)[p := v]]) (zip positions vals) A"

definition omp_subtract ::
  "omp_params \<Rightarrow> nat \<Rightarrow> (nat \<times> nat) \<Rightarrow> real \<Rightarrow> score list list \<Rightarrow> score list list" where
  "omp_subtract d num_peaks sel diff_amplitude scalar_products =
     (let (tmp_best, tmp_peak) = sel;
          num_samples = nafter_op d + nbefore_op d;
          neighbor_window = int num_samples - 1;
          diff_amp = diff_amplitude * norms_op d ! tmp_best;
          idx0 = nat (max 0 (int tmp_peak - int num_samples));
          idx1 = nat (min (int num_peaks) (int tmp_peak + neighbor_window));
          tdx0 = num_samples + idx0 - tmp_peak
      in map (\<lambda>m. slice_update idx0 idx1
                      (\<lambda>k s. score_add s (- (diff_amp * overlaps_op d ! tmp_best ! m ! (tdx0 + k))))
                      (scalar_products ! m))
             [0..<length scalar_products])"

definition omp_refit ::
  "omp_params \<Rightarrow> nat \<Rightarrow> score list list \<Rightarrow> nat \<times> nat \<Rightarrow> (nat \<Rightarrow> nat \<Rightarrow> real) \<Rightarrow> nat \<Rightarrow>
   omp_state \<Rightarrow> omp_state" where
  "omp_refit d num_peaks full_sps best M shape st =
     (let selection = selection_st st @ [best];
          num_selection = length selection;
          res_sps = map (\<lambda>(c, p). score_value (full_sps ! c ! p)) selection;
          all_amplitudes = map (\<lambda>(a, (c, p)). a / norms_op d ! c) (zip (potrs M res_sps) selection);
          diff_amplitudes = map (\<lambda>(a, (c, p)). a - final_amplitudes_st st ! c ! p)
                                (zip all_amplitudes selection);
          modified = filter (\<lambda>i. omp_tol < \<bar>diff_amplitudes ! i\<bar>) [0..<num_selection]
      in \<lparr>scalar_products_st =
             fold (\<lambda>i. omp_subtract d num_peaks (selection ! i) (diff_amplitudes ! i)) modified
                  (scalar_products_st st),
          M_st = M,
          M_shape_st = shape,
          selection_st = selection,
          final_amplitudes_st = set_entries (final_amplitudes_st st) selection all_amplitudes\<rparr>)"

text \<open>
  One pass of \<open>while np.any(is_valid)\<close>. The pass ends the loop (\<open>break\<close>), raises, or
  hands the next state to the test of the loop. \<open>all_selections\<close> has
  \<open>scalar_products.size\<close> columns, so writing column \<open>num_selection\<close> raises \<open>IndexError\<close>
  once that many atoms have been selected.
\<close>

datatype pass = Break | Raise error | Next omp_state

definition omp_iteration ::
  "omp_params \<Rightarrow> nat \<Rightarrow> score list list \<Rightarrow> real \<times> nat \<times> nat \<Rightarrow> omp_state \<Rightarrow> pass" where
  "omp_iteration d num_peaks full_sps best st =
     (let (best_amplitude, best_cluster_ind, peak_index) = best;
          num_selection = length (selection_st st);
          (M1, shape, Lkk) = omp_cholesky d (best_cluster_ind, peak_index) st
      in case Lkk of
           Some l \<Rightarrow>
             if l \<le> omp_tol then Break
             else if num_templates_op d * num_peaks \<le> num_selection then Raise IndexError
             else Next (omp_refit d num_peaks full_sps (best_cluster_ind, peak_index)
                          (M1(num_selection := (M1 num_selection)(num_selection := sqrt l))) shape st)
         | None \<Rightarrow>
             if num_templates_op d * num_peaks \<le> num_selection then Raise IndexError
             else Next (omp_refit d num_peaks full_sps (best_cluster_ind, peak_index)
                          (M1(num_selection := (M1 num_selection)(num_selection := 1))) shape st))"

text \<open>
  The loop. A pass that goes on has written one more column of \<open>all_selections\<close>, and
  the write raises when the array is full, so the loop ends on every input.
\<close>

function omp_loop ::
  "omp_params \<Rightarrow> nat \<Rightarrow> score list list \<Rightarrow> omp_state \<Rightarrow> error + omp_state" where
  "omp_loop d num_peaks full_sps st =
     (case omp_valid d (scalar_products_st st) of
        [] \<Rightarrow> Inr st
      | x # xs \<Rightarrow>
          (case omp_iteration d num_peaks full_sps (argmax_first x xs) st of
             Break \<Rightarrow> Inr st
           | Raise e \<Rightarrow> Inl e
           | Next st' \<Rightarrow> omp_loop d num_peaks full_sps st'))"
  by pat_completeness auto
termination
proof (relation "measure (\<lambda>(d, num_peaks, full_sps, st).
                   num_templates_op d * num_peaks - length (selection_st st))")
  show "wf (measure (\<lambda>(d, num_peaks, full_sps, st).
                   num_templates_op d * num_peaks - length (selection_st st)))"
    by simp
next
  fix d num_peaks full_sps st x xs st'
  assume "omp_iteration d num_peaks full_sps (argmax_first x xs) st = Next st'"
  then have "length (selection_st st) < num_templates_op d * num_peaks \<and>
             length (selection_st st') = Suc (length (selection_st st))"
    by (auto simp: omp_iteration_def omp_refit_def Let_def
             split: prod.splits option.splits if_splits)
  then show "((d, num_peaks, full_sps, st'), (d, num_peaks, full_sps, st))
          \<in> measure (\<lambda>(d, num_peaks, full_sps, st).
                   num_templates_op d * num_peaks - length (selection_st st))"
    by (simp add: diff_less_mono2)
qed

declare omp_loop.simps [simp del]

text \<open>
  The output:
  \<^verbatim>\<open>is_valid = (final_amplitudes > min_amplitude) * (final_amplitudes < max_amplitude)
valid_indices = np.where(is_valid)
num_spikes = len(valid_indices[0])
spikes["sample_index"][:num_spikes] = valid_indices[1] + d["nbefore"]
spikes["channel_index"][:num_spikes] = 0
spikes["cluster_index"][:num_spikes] = valid_indices[0]
spikes["amplitude"][:num_spikes] = final_amplitudes[valid_indices[0], valid_indices[1]]
spikes = spikes[:num_spikes]
order = np.argsort(spikes["sample_index"])
spikes = spikes[order]\<close>
  \<open>np.where\<close> lists the positions in row-major order.
\<close>

definition omp_output_filter :: "omp_params \<Rightarrow> real list list \<Rightarrow> spike list" where
  "omp_output_filter d final_amplitudes =
     concat (map (\<lambda>n. concat (map (\<lambda>p.
               if fst (amplitudes_op d) < final_amplitudes ! n ! p \<and>
                  final_amplitudes ! n ! p < snd (amplitudes_op d)
               then [\<lparr>sample_index = int p + int (nbefore_op d), channel_index = 0,
                      cluster_index = n, amplitude = final_amplitudes ! n ! p\<rparr>]
               else [])
             [0..<length (final_amplitudes ! n)]))
       [0..<length final_amplitudes])"

definition omp_finish :: "omp_params \<Rightarrow> real list list \<Rightarrow> spike list" where
  "omp_finish d final_amplitudes = argsort_spikes (omp_output_filter d final_amplitudes)"

text \<open>
  \<open>np.matmul(d["spatial"], traces.T[np.newaxis, :, :])\<close> raises \<open>ValueError\<close> unless the
  traces have as many channels as the vectors of \<open>spatial\<close>. A trace is the list of its
  rows, so an empty trace has no width in the model: it stands for the empty trace of the
  fitting width.
\<close>

definition traces_fit :: "omp_params \<Rightarrow> real list list \<Rightarrow> bool" where
  "traces_fit d traces \<longleftrightarrow>
     list_all (\<lambda>row. list_all (list_all (\<lambda>w. length w = length row)) (spatial_op d)) traces"

text \<open>
  \<open>CircusOMPPeeler.main_function\<close>, for a dictionary \<open>d\<close> of the shapes given above. Before
  the loop the code raises on four occasions, in this order:
  \<^item> \<open>num_peaks = num_timesteps - num_samples + 1\<close> is negative:
    \<open>np.zeros(conv_shape)\<close> raises \<open>ValueError\<close>;
  \<^item> the channels of the traces do not fit \<open>spatial\<close>: \<open>np.matmul\<close> raises \<open>ValueError\<close>;
  \<^item> \<open>num_peaks = 0\<close> for a trace that is not empty: the trace is shorter than
    \<open>temporal\<close>, \<open>oaconvolve\<close> in mode \<open>valid\<close> swaps its arguments and returns two
    columns, which \<open>scalar_products += \<dots>\<close> cannot add to an array without columns
    (\<open>ValueError\<close>). \<open>oaconvolve\<close> returns an empty array when one of its arguments has
    no entry (an empty trace, rank 0 or no template); its sum is the number 0, and nothing
    is raised;
  \<^item> an entry of \<open>ignored_ids\<close> is not the index of a template:
    \<open>scalar_products[ignored_ids] = -np.inf\<close> raises \<open>IndexError\<close>.
\<close>

definition omp_main :: "omp_params \<Rightarrow> real list list \<Rightarrow> error + spike list" where
  "omp_main d traces =
     (let num_samples = nafter_op d + nbefore_op d;
          num_timesteps = length traces
      in if num_timesteps + 1 < num_samples then Inl ValueError
         else if \<not> traces_fit d traces then Inl ValueError
         else if 0 < num_timesteps \<and> num_timesteps < num_samples \<and>
                 0 < length (spatial_op d) \<and> 0 < num_templates_op d then Inl ValueError
         else if \<not> list_all (\<lambda>i. i < num_templates_op d) (ignored_ids_op d) then Inl IndexError
         else
           let num_peaks = num_timesteps + 1 - num_samples;
               scalar_products = omp_scores d traces num_peaks
           in case omp_loop d num_peaks scalar_products (omp_init d scalar_products num_peaks) of
                Inl e \<Rightarrow> Inl e
              | Inr st \<Rightarrow> Inr (omp_finish d (final_amplitudes_st st)))"

text \<open>
  \<open>omp_passes k\<close> runs \<open>k\<close> passes of the loop that all go on to the test of the loop,
  and returns the state after them; it is used to speak about the states that the loop
  goes through.
\<close>

fun omp_passes ::
  "nat \<Rightarrow> omp_params \<Rightarrow> nat \<Rightarrow> score list list \<Rightarrow> omp_state \<Rightarrow> omp_state option" where
  "omp_passes 0 d num_peaks full_sps st = Some st"
| "omp_passes (Suc k) d num_peaks full_sps st =
     (case omp_valid d (scalar_products_st st) of
        [] \<Rightarrow> None
      | x # xs \<Rightarrow>
          (case omp_iteration d num_peaks full_sps (argmax_first x xs) st of
             Next st' \<Rightarrow> omp_passes k d num_peaks full_sps st'
           | _ \<Rightarrow> None))"



text \<open>
  The shapes that the arrays of the greedy loop have: every row of \<open>scalar_products\<close> has
  one entry for each peak, and there is one table of overlaps for each row, with one row
  for each template and \<open>2 * num_samples - 1\<close> columns.
\<close>

definition greedy_shapes :: "greedy_params \<Rightarrow> int list \<Rightarrow> score list list \<Rightarrow> bool" where
  "greedy_shapes d peak_sample_index scalar_products \<longleftrightarrow>
     list_all (\<lambda>row. length row = length peak_sample_index) scalar_products \<and>
     length (overlaps_gp d) = length scalar_products \<and>
     list_all (\<lambda>ov. length ov = length scalar_products \<and>
                     list_all (\<lambda>r. length r = 2 * (nafter_gp d + nbefore_gp d) - 1) ov)
              (overlaps_gp d)"

text \<open>The same for the dictionary \<open>d\<close> alone, as the initialiser builds it.\<close>

definition greedy_config_ok :: "greedy_params \<Rightarrow> bool" where
  "greedy_config_ok d \<longleftrightarrow>
     length (templates_gp d) = num_templates_gp d \<and>
     length (overlaps_gp d) = num_templates_gp d \<and>
     list_all (\<lambda>ov. length ov = num_templates_gp d \<and>
                     list_all (\<lambda>r. length r = 2 * (nafter_gp d + nbefore_gp d) - 1) ov)
              (overlaps_gp d)"

text \<open>The positions of \<open>scalar_products\<close> that are not \<open>-inf\<close>.\<close>

definition finite_entries :: "score list list \<Rightarrow> (nat \<times> nat) set" where
  "finite_entries S = {(m, q). m < length S \<and> q < length (S ! m) \<and> S ! m ! q \<noteq> NegInf}"

text \<open>The bounds \<open>is_valid_nn\<close> of the window of a pass of the greedy loop.\<close>

definition window_lo :: "greedy_params \<Rightarrow> int list \<Rightarrow> nat \<Rightarrow> nat" where
  "window_lo d ts p = searchsorted (map (\<lambda>t. t - ts ! p) ts) (- (int (nafter_gp d + nbefore_gp d) - 1))"

definition window_hi :: "greedy_params \<Rightarrow> int list \<Rightarrow> nat \<Rightarrow> nat" where
  "window_hi d ts p = searchsorted (map (\<lambda>t. t - ts ! p) ts) (int (nafter_gp d + nbefore_gp d) - 1 + 1)"

text \<open>A trace of all zeros.\<close>

definition zero_traces :: "real list list \<Rightarrow> bool" where
  "zero_traces traces \<longleftrightarrow> list_all (list_all (\<lambda>x. x = 0)) traces"

text \<open>
  The shapes of the arrays of \<open>d\<close> that the OMP peeler reads, as
  \<open>initialize_and_check_kwargs\<close> builds them: \<open>spatial\<close>, \<open>singular\<close> and \<open>temporal\<close>
  have one entry for each rank and template, the rows of \<open>temporal\<close> have \<open>num_samples\<close>
  entries, \<open>norms\<close> and \<open>stop_criteria\<close> have one entry for each template, and there is
  one table of overlaps for each template, with one row for each template and
  \<open>2 * num_samples - 1\<close> columns.
\<close>

definition omp_shapes :: "omp_params \<Rightarrow> bool" where
  "omp_shapes d \<longleftrightarrow>
     length (singular_op d) = length (spatial_op d) \<and>
     length (temporal_op d) = length (spatial_op d) \<and>
     list_all (\<lambda>sp. length sp = num_templates_op d) (spatial_op d) \<and>
     list_all (\<lambda>sg. length sg = num_templates_op d) (singular_op d) \<and>
     list_all (\<lambda>tm. length tm = num_templates_op d \<and>
                     list_all (\<lambda>h. length h = nafter_op d + nbefore_op d) tm)
              (temporal_op d) \<and>
     length (norms_op d) = num_templates_op d \<and>
     length (stop_criteria_op d) = num_templates_op d \<and>
     length (overlaps_op d) = num_templates_op d \<and>
     list_all (\<lambda>ov. length ov = num_templates_op d \<and>
                     list_all (\<lambda>r. length r = 2 * (nafter_op d + nbefore_op d) - 1) ov)
              (overlaps_op d)"

text \<open>
  The bands of the greedy peeler, in units of the scores, that do not contain 0.
\<close>

definition greedy_bands_exclude_zero :: "greedy_params \<Rightarrow> bool" where
  "greedy_bands_exclude_zero g \<longleftrightarrow>
     list_all (\<lambda>n. \<not> (min_sps g n < 0 \<and> 0 < max_sps g n)) [0..<length (templates_gp g)]"

subsection \<open>Example inputs\<close>

text \<open>One template of two samples on one channel for the OMP peeler.\<close>

definition omp_example :: omp_params where
  "omp_example =
     \<lparr>num_templates_op = 1, overlaps_op = [[[0, 0, 1]]], norms_op = [1], nbefore_op = 1,
      nafter_op = 1, amplitudes_op = (1 / 2, 2), ignored_ids_op = [], stop_criteria_op = [1 / 10],
      vicinity_op = 0, spatial_op = [[[1]]], singular_op = [[1]], temporal_op = [[[0, 1]]]\<rparr>"

text \<open>
  Two templates of two samples on one channel, the second one the first one moved by one
  sample: template 0 has the samples 0, 1 and template 1 the samples 1, 0. The overlaps
  are those that \<open>compute_overlaps\<close> returns for them, the threshold is one tenth of the
  norms. Template 0 placed at time \<open>t\<close> and template 1 placed at time \<open>t + 1\<close> are the same
  signal.
\<close>

definition omp_shifted_example :: omp_params where
  "omp_shifted_example =
     \<lparr>num_templates_op = 2, overlaps_op = [[[0, 0, 1], [0, 0, 0]], [[0, 1, 0], [0, 0, 1]]],
      norms_op = [1, 1], nbefore_op = 1, nafter_op = 1, amplitudes_op = (1 / 2, 2),
      ignored_ids_op = [], stop_criteria_op = [1 / 10, 1 / 10], vicinity_op = 0,
      spatial_op = [[[1], [1]]], singular_op = [[1, 1]], temporal_op = [[[1, 0], [0, 1]]]\<rparr>"

text \<open>The state of the loop after the first pass on the trace 0, 1, 0.\<close>

definition omp_shifted_state :: omp_state where
  "omp_shifted_state =
     \<lparr>scalar_products_st = [[Fin 0, Fin 0], [Fin 0, Fin 1]],
      M_st = (\<lambda>i j. 0)(0 := (\<lambda>j. 0)(0 := 1)),
      M_shape_st = 100, selection_st = [(0, 0)], final_amplitudes_st = [[1, 0], [0, 0]]\<rparr>"

text \<open>
  Two templates of two samples on two channels: template \<open>n\<close> has the sample 1 at time 0
  on channel \<open>n\<close> and is 0 elsewhere.
\<close>

definition omp_two_channel_example :: omp_params where
  "omp_two_channel_example =
     \<lparr>num_templates_op = 2, overlaps_op = [[[0, 0, 1], [0, 0, 0]], [[0, 0, 0], [0, 0, 1]]],
      norms_op = [1, 1], nbefore_op = 1, nafter_op = 1, amplitudes_op = (1 / 2, 2),
      ignored_ids_op = [], stop_criteria_op = [1 / 10, 1 / 10], vicinity_op = 0,
      spatial_op = [[[1, 0], [0, 1]]], singular_op = [[1, 1]], temporal_op = [[[0, 1], [0, 1]]]\<rparr>"

text \<open>
  The state of the loop after the first pass on the trace with the sample 1 at time 0 on
  channel 1 and at time 2 on channel 0.
\<close>

definition omp_two_channel_state :: omp_state where
  "omp_two_channel_state =
     \<lparr>scalar_products_st = [[Fin 0, Fin 0, Fin 0], [Fin 1, Fin 0, Fin 0]],
      M_st = (\<lambda>i j. 0)(0 := (\<lambda>j. 0)(0 := 1)),
      M_shape_st = 100, selection_st = [(0, 2)], final_amplitudes_st = [[0, 0, 1], [0, 0, 0]]\<rparr>"

text \<open>One template of two samples on one channel for the greedy peeler.\<close>

definition greedy_example :: greedy_params where
  "greedy_example =
     \<lparr>templates_gp = [[0, 1]], num_templates_gp = 1, overlaps_gp = [[[0, 0, 1]]], margin_gp = 2,
      norms_gp = [2], jitter_gp = 0, patch_sizes_gp = (2, 1), nbefore_gp = 1, nafter_gp = 1,
      amplitudes_gp = [(1 / 2, 3 / 2)], sym_patch_gp = True\<rparr>"

text \<open>Two templates and three peaks for one pass of the greedy loop.\<close>

definition greedy_example2 :: greedy_params where
  "greedy_example2 =
     \<lparr>templates_gp = [[1, 0], [0, 1]], num_templates_gp = 2,
      overlaps_gp = [[[0, 0, 1], [0, 0, 1 / 2]], [[0, 0, 1 / 2], [0, 0, 1]]], margin_gp = 2,
      norms_gp = [1, 1], jitter_gp = 0, patch_sizes_gp = (2, 1), nbefore_gp = 1, nafter_gp = 1,
      amplitudes_gp = [(1 / 2, 3 / 2), (1 / 2, 3 / 2)], sym_patch_gp = True\<rparr>"

section \<open>Properties\<close>

subsection \<open>Stopping threshold\<close>

lemma sqrt_16: "sqrt 16 = (4::real)"
  using real_sqrt_abs [of 4] by simp

text \<open>
  C1 (as amended). For every template \<open>n\<close> the stopping threshold computed at
  initialisation is \<open>omp_min_sps * max (norms n) (sqrt ((\<Sum>c. noise c) * L))\<close>: the
  per-channel noise levels are summed as they are, not squared.
\<close>

theorem stop_criteria_nth:
  "n < length norms \<Longrightarrow>
   stop_criteria omp_min_sps norms noise_levels num_samples ! n =
     omp_min_sps * max (norms ! n) (sqrt (sum_list noise_levels * real num_samples))"
  by (simp add: stop_criteria_def)

theorem stop_criteria_nth_witness:
  "(0::nat) < length [1::real] \<and> stop_criteria 1 [1] [4] 1 ! 0 = 2"
  using stop_criteria_nth [of 0 "[1]" 1 "[4]" 1] by simp

text \<open>
  C1 as the specification words it, with the noise levels squared under the root, fails:
  one template of norm 1, one channel of noise level 4 and one sample give the threshold
  2, where the squared form gives 4.
\<close>

theorem stop_criteria_squared_counterexample:
  "stop_criteria 1 [1] [4] 1 ! 0 \<noteq>
     1 * max ([1] ! 0) (sqrt (sum_list (map (\<lambda>x. x\<^sup>2) [4]) * real (1::nat)))"
  by (simp add: stop_criteria_def sqrt_16)

subsection \<open>The overlap table\<close>


































subsection \<open>The greedy loop\<close>

lemma searchsorted_less:
  "sorted a \<Longrightarrow> q < length a \<Longrightarrow> q < searchsorted a v \<longleftrightarrow> a ! q < v"
proof (induction a arbitrary: q)
  case Nil
  then show ?case by simp
next
  case (Cons x a)
  show ?case
  proof (cases "x < v")
    case True
    with Cons show ?thesis by (cases q) (auto simp: searchsorted_def)
  next
    case False
    from Cons.prems have "x \<le> (x # a) ! q" by (cases q) auto
    with False show ?thesis by (simp add: searchsorted_def)
  qed
qed

lemma searchsorted_le_length: "searchsorted a v \<le> length a"
  by (simp add: searchsorted_def length_takeWhile_le)

lemma slice_update_nth:
  "q < length row \<Longrightarrow>
   slice_update lo hi g row ! q = (if lo \<le> q \<and> q < hi then g (q - lo) (row ! q) else row ! q)"
  by (simp add: slice_update_def)

lemma length_slice_update [simp]: "length (slice_update lo hi g row) = length row"
  by (simp add: slice_update_def)

lemma argmax_first_in: "argmax_first b xs \<in> set (b # xs)"
  by (induction b xs rule: argmax_first.induct) auto

lemma greedy_valid_D:
  assumes "(v, n, p) \<in> set (greedy_valid d S)"
  shows "n < length S \<and> p < length (S ! n) \<and> S ! n ! p = Fin v \<and> min_sps d n < v \<and> v < max_sps d n"
  using assms by (auto simp: greedy_valid_def split: score.splits if_splits)

lemma greedy_valid_I:
  assumes "n < length S" "p < length (S ! n)" "S ! n ! p = Fin v" "min_sps d n < v" "v < max_sps d n"
  shows "(v, n, p) \<in> set (greedy_valid d S)"
  using assms by (auto simp: greedy_valid_def split: score.splits if_splits)

lemma sorted_shift: "sorted ts \<Longrightarrow> sorted (map (\<lambda>t. t - (c::int)) ts)"
  by (induction ts) auto

lemma in_window:
  assumes "sorted ts" "q < length ts"
  shows "window_lo d ts p \<le> q \<and> q < window_hi d ts p \<longleftrightarrow>
         - int (nafter_gp d + nbefore_gp d) < ts ! q - ts ! p \<and> ts ! q - ts ! p < int (nafter_gp d + nbefore_gp d)"
proof -
  let ?pd = "map (\<lambda>t. t - ts ! p) ts"
  have s: "sorted ?pd" using assms(1) by (rule sorted_shift)
  have q: "q < length ?pd" using assms(2) by simp
  have "q < window_lo d ts p \<longleftrightarrow> ?pd ! q < - (int (nafter_gp d + nbefore_gp d) - 1)"
    unfolding window_lo_def by (rule searchsorted_less [OF s q])
  moreover have "q < window_hi d ts p \<longleftrightarrow> ?pd ! q < int (nafter_gp d + nbefore_gp d) - 1 + 1"
    unfolding window_hi_def by (rule searchsorted_less [OF s q])
  ultimately show ?thesis using assms(2) by auto
qed

lemma greedy_iteration_nth:
  assumes "m < length S" "q < length (S ! m)" "length (S ! m) = length ts" "n < length S"
    "length (overlaps_gp d ! n) = length S"
  shows "fst (greedy_iteration d ts cs (A, n, p) (S, spikes)) ! m ! q =
     (if window_lo d ts p \<le> q \<and> q < window_hi d ts p then
        (if m = n then NegInf
         else score_add (S ! m ! q)
                (- A * overlaps_gp d ! n ! m ! nat (ts ! q - ts ! p + (int (nafter_gp d + nbefore_gp d) - 1))))
      else S ! m ! q)"
proof -
  let ?nw = "int (nafter_gp d + nbefore_gp d) - 1"
  let ?pd = "map (\<lambda>t. t - ts ! p) ts"
  let ?lo = "window_lo d ts p" and ?hi = "window_hi d ts p"
  let ?idx = "map (\<lambda>x. x + ?nw) (take (?hi - ?lo) (drop ?lo ?pd))"
  let ?to_add = "map (\<lambda>row. map (\<lambda>i. - A * row ! nat i) ?idx) (overlaps_gp d ! n)"
  let ?added = "map (\<lambda>m. slice_update ?lo ?hi (\<lambda>k s. score_add s (?to_add ! m ! k)) (S ! m)) [0..<length S]"
  let ?cleared = "?added[n := slice_update ?lo ?hi (\<lambda>k s. NegInf) (?added ! n)]"
  have fst_eq: "fst (greedy_iteration d ts cs (A, n, p) (S, spikes)) = ?cleared"
    by (simp add: greedy_iteration_def Let_def window_lo_def window_hi_def)
  have hi: "?hi \<le> length ts"
    using searchsorted_le_length [of ?pd] by (simp add: window_hi_def)
  have idx: "?idx ! (q - ?lo) = ts ! q - ts ! p + ?nw" and len_idx: "q - ?lo < length ?idx"
    if "?lo \<le> q" "q < ?hi"
  proof -
    from that hi have a: "q - ?lo < ?hi - ?lo" and b: "?lo + (q - ?lo) = q" and c: "q < length ts"
      by arith+
    from a hi have l: "q - ?lo < length (take (?hi - ?lo) (drop ?lo ?pd))" by simp
    then show "q - ?lo < length ?idx" by simp
    have "?idx ! (q - ?lo) = take (?hi - ?lo) (drop ?lo ?pd) ! (q - ?lo) + ?nw"
      using l by (rule nth_map)
    also have "take (?hi - ?lo) (drop ?lo ?pd) ! (q - ?lo) = drop ?lo ?pd ! (q - ?lo)"
      using a by simp
    also have "\<dots> = ?pd ! q" using b c by simp
    also have "\<dots> = ts ! q - ts ! p" using c by simp
    finally show "?idx ! (q - ?lo) = ts ! q - ts ! p + ?nw" .
  qed
  have added: "?added ! m ! q =
     (if ?lo \<le> q \<and> q < ?hi then score_add (S ! m ! q) (- A * overlaps_gp d ! n ! m ! nat (ts ! q - ts ! p + ?nw))
      else S ! m ! q)"
    using assms idx len_idx by (simp add: slice_update_nth)
  show ?thesis
  proof (cases "m = n")
    case True
    with assms show ?thesis unfolding fst_eq by (simp add: slice_update_nth)
  next
    case False
    with assms added show ?thesis unfolding fst_eq by simp
  qed
qed

lemma greedy_iteration_length:
  "length (fst (greedy_iteration d ts cs (A, n, p) (S, spikes))) = length S"
  by (simp add: greedy_iteration_def Let_def)

lemma greedy_iteration_row_length:
  "m < length S \<Longrightarrow> length (fst (greedy_iteration d ts cs (A, n, p) (S, spikes)) ! m) = length (S ! m)"
  by (cases "m = n") (simp_all add: greedy_iteration_def Let_def)

lemma greedy_iteration_spikes:
  "snd (greedy_iteration d ts cs (A, n, p) (S, spikes)) =
     spikes @ [\<lparr>sample_index = ts ! p, channel_index = cs ! p, cluster_index = n, amplitude = A\<rparr>]"
  by (simp add: greedy_iteration_def Let_def)

lemma greedy_shapes_rows:
  "greedy_shapes d ts S \<Longrightarrow> m < length S \<Longrightarrow> length (S ! m) = length ts"
  by (simp add: greedy_shapes_def list_all_length)

lemma greedy_shapes_overlaps:
  "greedy_shapes d ts S \<Longrightarrow> n < length S \<Longrightarrow> length (overlaps_gp d ! n) = length S"
  by (simp add: greedy_shapes_def list_all_length)

lemma greedy_shapes_iteration:
  assumes "greedy_shapes d ts S"
  shows "greedy_shapes d ts (fst (greedy_iteration d ts cs (A, n, p) (S, spikes)))"
  using assms unfolding greedy_shapes_def list_all_length
  by (simp add: greedy_iteration_length greedy_iteration_row_length)


text \<open>
  C5. In a pass of the greedy loop that selects \<open>(n, p)\<close> with amplitude \<open>A\<close>, which is
  the score \<open>S[n, p]\<close>, entry \<open>(m, q)\<close> of the new score matrix is: for a peak \<open>q\<close> whose
  sample distance \<open>delta\<close> from peak \<open>p\<close> lies in \<open>(-L, L)\<close>, \<open>-inf\<close> in row \<open>n\<close> and
  \<open>S[m, q] - A * O_n[m, L - 1 + delta]\<close> in the other rows; for every other peak, the old
  entry.
\<close>

theorem greedy_residual_law:
  assumes "sorted peak_sample_index"
    and "greedy_shapes d peak_sample_index scalar_products"
    and "greedy_valid d scalar_products = x # xs"
    and "argmax_first x xs = (A, n, p)"
    and "m < length scalar_products" and "q < length peak_sample_index"
  shows "scalar_products ! n ! p = Fin A \<and>
     fst (greedy_iteration d peak_sample_index peak_chan_ind (A, n, p) (scalar_products, spikes)) ! m ! q =
       (let delta = peak_sample_index ! q - peak_sample_index ! p;
            L = int (nafter_gp d + nbefore_gp d)
        in if - L < delta \<and> delta < L then
             (if m = n then NegInf
              else score_add (scalar_products ! m ! q)
                     (- (A * overlaps_gp d ! n ! m ! nat (L - 1 + delta))))
           else scalar_products ! m ! q)"
proof -
  have "(A, n, p) \<in> set (greedy_valid d scalar_products)"
    using argmax_first_in [of x xs] assms(3,4) by simp
  then have v: "n < length scalar_products" "scalar_products ! n ! p = Fin A"
    using greedy_valid_D by blast+
  have rows: "length (scalar_products ! m) = length peak_sample_index"
    using assms(2,5) by (rule greedy_shapes_rows)
  have ov: "length (overlaps_gp d ! n) = length scalar_products"
    using assms(2) v(1) by (rule greedy_shapes_overlaps)
  have "fst (greedy_iteration d peak_sample_index peak_chan_ind (A, n, p) (scalar_products, spikes)) ! m ! q =
     (if window_lo d peak_sample_index p \<le> q \<and> q < window_hi d peak_sample_index p then
        (if m = n then NegInf
         else score_add (scalar_products ! m ! q)
                (- A * overlaps_gp d ! n ! m !
                   nat (peak_sample_index ! q - peak_sample_index ! p + (int (nafter_gp d + nbefore_gp d) - 1))))
      else scalar_products ! m ! q)"
    using assms(5,6) rows v(1) ov by (intro greedy_iteration_nth) simp_all
  then show ?thesis
    using v(2) in_window [OF assms(1,6), of d p] by (simp add: Let_def add.commute)
qed


theorem greedy_residual_law_witness:
  "sorted [3, 4, 7 :: int] \<and>
   greedy_shapes greedy_example2 [3, 4, 7] [[Fin 1, Fin 0, Fin 1], [Fin 0, Fin 0, Fin 0]] \<and>
   greedy_valid greedy_example2 [[Fin 1, Fin 0, Fin 1], [Fin 0, Fin 0, Fin 0]] = [(1, 0, 0), (1, 0, 2)] \<and>
   argmax_first (1, 0, 0) [(1, 0, 2)] = (1, 0, 0) \<and>
   (1::nat) < length [[Fin 1, Fin 0, Fin 1], [Fin 0, Fin 0, Fin 0]] \<and>
   (1::nat) < length [3, 4, 7 :: int] \<and>
   fst (greedy_iteration greedy_example2 [3, 4, 7] [0, 0, 0] (1, 0, 0)
          ([[Fin 1, Fin 0, Fin 1], [Fin 0, Fin 0, Fin 0]], [])) ! 1 ! 1 = Fin (- (1 / 2))"
proof -
  have a: "sorted [3, 4, 7 :: int]" by simp
  have b: "greedy_shapes greedy_example2 [3, 4, 7] [[Fin 1, Fin 0, Fin 1], [Fin 0, Fin 0, Fin 0]]"
    by (simp add: greedy_shapes_def greedy_example2_def)
  have c: "greedy_valid greedy_example2 [[Fin 1, Fin 0, Fin 1], [Fin 0, Fin 0, Fin 0]] =
             [(1, 0, 0), (1, 0, 2)]"
    by (simp add: greedy_valid_def greedy_example2_def min_sps_def max_sps_def upt_rec)
  have d: "argmax_first (1, 0, 0) [(1, 0, 2)] = (1, 0, 0)" by simp
  have e: "(1::nat) < length [[Fin 1, Fin 0, Fin 1], [Fin 0, Fin 0, Fin 0]]" by simp
  have f: "(1::nat) < length [3, 4, 7 :: int]" by simp
  have g: "overlaps_gp greedy_example2 ! 0 ! Suc 0 ! 2 = 1 / 2"
    by (simp add: greedy_example2_def eval_nat_numeral)
  have h: "int (nafter_gp greedy_example2 + nbefore_gp greedy_example2) = 2"
    by (simp add: greedy_example2_def)
  from greedy_residual_law [OF a b c d e f, of "[0, 0, 0]" "[]"]
  have "fst (greedy_iteration greedy_example2 [3, 4, 7] [0, 0, 0] (1, 0, 0)
          ([[Fin 1, Fin 0, Fin 1], [Fin 0, Fin 0, Fin 0]], [])) ! 1 ! 1 = Fin (- (1 / 2))"
    unfolding h Let_def by (simp add: g)
  with a b c d e f show ?thesis by blast
qed

lemma finite_finite_entries: "finite (finite_entries S)"
proof -
  have "finite_entries S \<subseteq> (\<Union>m\<in>{..<length S}. {m} \<times> {..<length (S ! m)})"
    by (auto simp: finite_entries_def)
  moreover have "finite (\<Union>m\<in>{..<length S}. {m} \<times> {..<length (S ! m)})" by simp
  ultimately show ?thesis by (rule finite_subset)
qed

lemma card_finite_entries:
  assumes "greedy_shapes d ts S"
  shows "card (finite_entries S) \<le> length S * length ts"
proof -
  have "finite_entries S \<subseteq> {..<length S} \<times> {..<length ts}"
    using greedy_shapes_rows [OF assms] by (auto simp: finite_entries_def)
  then have "card (finite_entries S) \<le> card ({..<length S} \<times> {..<length ts})"
    by (intro card_mono) simp_all
  then show ?thesis by simp
qed

lemma score_add_NegInf: "score_add s x \<noteq> NegInf \<Longrightarrow> s \<noteq> NegInf"
  by (cases s) simp_all

lemma greedy_iteration_decreases:
  assumes "sorted ts" "greedy_shapes d ts S" "0 < nafter_gp d + nbefore_gp d"
    and "(A, n, p) \<in> set (greedy_valid d S)"
  shows "finite_entries (fst (greedy_iteration d ts cs (A, n, p) (S, spikes))) \<subset> finite_entries S"
proof -
  let ?S' = "fst (greedy_iteration d ts cs (A, n, p) (S, spikes))"
  from assms(4) have n: "n < length S" and p: "p < length (S ! n)" and Snp: "S ! n ! p = Fin A"
    using greedy_valid_D by blast+
  from assms(2) n p have p': "p < length ts" by (simp add: greedy_shapes_rows)
  have nth: "?S' ! m ! q =
     (if window_lo d ts p \<le> q \<and> q < window_hi d ts p then
        (if m = n then NegInf
         else score_add (S ! m ! q)
                (- A * overlaps_gp d ! n ! m ! nat (ts ! q - ts ! p + (int (nafter_gp d + nbefore_gp d) - 1))))
      else S ! m ! q)" if "m < length S" "q < length (S ! m)" for m q
    using that n assms(2) by (intro greedy_iteration_nth) (simp_all add: greedy_shapes_rows greedy_shapes_overlaps)
  have sub: "finite_entries ?S' \<subseteq> finite_entries S"
  proof
    fix e assume e: "e \<in> finite_entries ?S'"
    obtain m q where mq: "e = (m, q)" by (cases e)
    from e mq have m: "m < length S" and q: "q < length (S ! m)" and ne: "?S' ! m ! q \<noteq> NegInf"
      by (auto simp: finite_entries_def greedy_iteration_length greedy_iteration_row_length)
    from ne nth [OF m q] have "S ! m ! q \<noteq> NegInf"
      by (auto split: if_splits dest: score_add_NegInf)
    with m q mq show "e \<in> finite_entries S" by (simp add: finite_entries_def)
  qed
  have win: "window_lo d ts p \<le> p \<and> p < window_hi d ts p"
    using in_window [OF assms(1) p', of d p] assms(3) by simp
  have "(n, p) \<in> finite_entries S" using n p Snp by (simp add: finite_entries_def)
  moreover have "(n, p) \<notin> finite_entries ?S'"
    using nth [OF n p] win by (simp add: finite_entries_def)
  ultimately show ?thesis using sub by blast
qed

lemma greedy_loop_bounded:
  assumes "sorted ts" "greedy_shapes d ts S" "0 < nafter_gp d + nbefore_gp d"
  shows "\<exists>S' spikes'. greedy_loop d ts cs (S, spikes) = Some (S', spikes') \<and>
           length spikes' \<le> length spikes + card (finite_entries S)"
  using assms(2)
proof (induction "card (finite_entries S)" arbitrary: S spikes rule: less_induct)
  case less
  show ?case
  proof (cases "greedy_valid d S")
    case Nil
    then show ?thesis by (subst greedy_loop.simps) simp
  next
    case (Cons x xs)
    obtain A n p where best: "argmax_first x xs = (A, n, p)" by (cases "argmax_first x xs")
    let ?st = "greedy_iteration d ts cs (A, n, p) (S, spikes)"
    have valid: "(A, n, p) \<in> set (greedy_valid d S)"
      using argmax_first_in [of x xs] best Cons by simp
    have dec: "finite_entries (fst ?st) \<subset> finite_entries S"
      using assms(1) less.prems assms(3) valid by (rule greedy_iteration_decreases)
    then have card: "card (finite_entries (fst ?st)) < card (finite_entries S)"
      by (intro psubset_card_mono finite_finite_entries)
    have shapes: "greedy_shapes d ts (fst ?st)"
      using less.prems by (rule greedy_shapes_iteration)
    from less.hyps [OF card shapes, of "snd ?st"]
    obtain S' spikes' where r: "greedy_loop d ts cs (fst ?st, snd ?st) = Some (S', spikes')"
      and l: "length spikes' \<le> length (snd ?st) + card (finite_entries (fst ?st))" by blast
    have "greedy_loop d ts cs (S, spikes) = greedy_loop d ts cs ?st"
      by (subst greedy_loop.simps) (simp add: Cons best)
    with r have "greedy_loop d ts cs (S, spikes) = Some (S', spikes')" by simp
    moreover have "length spikes' \<le> length spikes + card (finite_entries S)"
      using l card by (simp add: greedy_iteration_spikes)
    ultimately show ?thesis by blast
  qed
qed


text \<open>
  C10. The greedy loop ends: for peak times in ascending order (as \<open>np.unique\<close> returns
  them), score and overlap arrays of fitting shapes and templates of at least one sample,
  the loop returns, after at most \<open>N * P\<close> passes (each pass appends one detection). Each
  pass turns the selected entry into \<open>-inf\<close> and no entry that is \<open>-inf\<close> becomes finite
  again.
\<close>

theorem greedy_loop_terminates:
  assumes "sorted peak_sample_index"
    and "greedy_shapes d peak_sample_index scalar_products"
    and "0 < nafter_gp d + nbefore_gp d"
  shows "\<exists>final spikes.
           greedy_loop d peak_sample_index peak_chan_ind (scalar_products, []) = Some (final, spikes) \<and>
           length spikes \<le> length scalar_products * length peak_sample_index"
proof -
  from greedy_loop_bounded [OF assms, of peak_chan_ind "[]"]
  obtain S' spikes' where "greedy_loop d peak_sample_index peak_chan_ind (scalar_products, []) = Some (S', spikes')"
    and "length spikes' \<le> card (finite_entries scalar_products)" by auto
  with card_finite_entries [OF assms(2)] show ?thesis by fastforce
qed


theorem greedy_loop_terminates_witness:
  "sorted [3, 4, 7 :: int] \<and>
   greedy_shapes greedy_example2 [3, 4, 7] [[Fin 1, Fin 0, Fin 1], [Fin 0, Fin 0, Fin 0]] \<and>
   0 < nafter_gp greedy_example2 + nbefore_gp greedy_example2 \<and>
   (\<exists>final spikes.
      greedy_loop greedy_example2 [3, 4, 7] [0, 0, 0]
        ([[Fin 1, Fin 0, Fin 1], [Fin 0, Fin 0, Fin 0]], []) = Some (final, spikes) \<and>
      length spikes \<le> length [[Fin 1, Fin 0, Fin 1], [Fin 0, Fin 0, Fin 0]] * length [3, 4, 7 :: int])"
proof -
  have a: "sorted [3, 4, 7 :: int]" by simp
  have b: "greedy_shapes greedy_example2 [3, 4, 7] [[Fin 1, Fin 0, Fin 1], [Fin 0, Fin 0, Fin 0]]"
    by (simp add: greedy_shapes_def greedy_example2_def)
  have c: "0 < nafter_gp greedy_example2 + nbefore_gp greedy_example2"
    by (simp add: greedy_example2_def)
  from greedy_loop_terminates [OF a b c, of "[0, 0, 0]"] a b c show ?thesis by blast
qed

subsection \<open>The OMP loop and the outputs\<close>

lemma omp_passes_loop:
  "omp_passes k d P full st0 = Some st \<Longrightarrow> omp_loop d P full st0 = omp_loop d P full st"
proof (induction k arbitrary: st0)
  case 0
  then show ?case by simp
next
  case (Suc k)
  from Suc.prems obtain x xs st' where v: "omp_valid d (scalar_products_st st0) = x # xs"
    and it: "omp_iteration d P full (argmax_first x xs) st0 = Next st'"
    and rest: "omp_passes k d P full st' = Some st"
    by (auto split: list.splits pass.splits)
  have "omp_loop d P full st0 = omp_loop d P full st'"
    by (subst omp_loop.simps) (simp add: v it)
  with Suc.IH [OF rest] show ?case by simp
qed

lemma omp_iteration_Break:
  assumes "snd (snd (omp_cholesky d (n, p) st)) = Some l" "l \<le> omp_tol"
  shows "omp_iteration d P full (a, n, p) st = Break"
  using assms by (auto simp: omp_iteration_def Let_def split: prod.splits)


lemma concat_map_if_singleton:
  "concat (map (\<lambda>x. if P x then [f x] else []) xs) = map f (filter P xs)"
  by (induction xs) simp_all

lemma omp_output_filter_set:
  "s \<in> set (omp_output_filter d final_amplitudes) \<longleftrightarrow>
     (\<exists>n p. n < length final_amplitudes \<and> p < length (final_amplitudes ! n) \<and>
         fst (amplitudes_op d) < final_amplitudes ! n ! p \<and>
         final_amplitudes ! n ! p < snd (amplitudes_op d) \<and>
         s = \<lparr>sample_index = int p + int (nbefore_op d), channel_index = 0,
              cluster_index = n, amplitude = final_amplitudes ! n ! p\<rparr>)"
  by (auto simp: omp_output_filter_def split: if_splits)

lemma distinct_omp_output_filter: "distinct (omp_output_filter d fa)"
proof -
  let ?row = "\<lambda>n. concat (map (\<lambda>p.
               if fst (amplitudes_op d) < fa ! n ! p \<and> fa ! n ! p < snd (amplitudes_op d)
               then [\<lparr>sample_index = int p + int (nbefore_op d), channel_index = 0,
                      cluster_index = n, amplitude = fa ! n ! p\<rparr>]
               else [])
             [0..<length (fa ! n)])"
  have row_cluster: "s \<in> set (?row n) \<Longrightarrow> cluster_index s = n" for s n
    by (auto split: if_splits)
  have row_distinct: "distinct (?row n)" for n
  proof -
    have "?row n = map (\<lambda>p. \<lparr>sample_index = int p + int (nbefore_op d), channel_index = 0,
                      cluster_index = n, amplitude = fa ! n ! p\<rparr>)
              (filter (\<lambda>p. fst (amplitudes_op d) < fa ! n ! p \<and> fa ! n ! p < snd (amplitudes_op d))
                      [0..<length (fa ! n)])"
      by (rule concat_map_if_singleton)
    moreover have "distinct \<dots>"
      by (auto simp: distinct_map inj_on_def)
    ultimately show ?thesis by simp
  qed
  have "distinct (concat (map ?row [0..<N]))" for N
  proof (induction N)
    case 0
    then show ?case by simp
  next
    case (Suc N)
    have "set (concat (map ?row [0..<N])) \<inter> set (?row N) = {}"
    proof (rule ccontr)
      assume "\<not> ?thesis"
      then obtain s where a: "s \<in> set (concat (map ?row [0..<N]))" and b: "s \<in> set (?row N)" by blast
      from a obtain n where "n < N" "s \<in> set (?row n)" by auto
      with row_cluster [of s n] row_cluster [OF b] show False by simp
    qed
    with Suc row_distinct [of N] show ?case by simp
  qed
  then show ?thesis by (simp add: omp_output_filter_def)
qed

lemma sorted_argsort_spikes: "sorted (map sample_index (argsort_spikes spikes))"
  by (simp add: argsort_spikes_def)

lemma set_argsort_spikes: "set (argsort_spikes spikes) = set spikes"
  by (simp add: argsort_spikes_def)

lemma distinct_argsort_spikes: "distinct (argsort_spikes spikes) = distinct spikes"
  by (simp add: argsort_spikes_def)

lemma omp_main_sorted: "omp_main d traces = Inr out \<Longrightarrow> sorted (map sample_index out)"
  by (auto simp: omp_main_def Let_def omp_finish_def sorted_argsort_spikes split: if_splits sum.splits)

lemma greedy_main_sorted:
  "greedy_main detect_peaks g traces = Some (Inr out) \<Longrightarrow> sorted (map sample_index out)"
  by (auto simp: greedy_main_def Let_def greedy_finish_def sorted_argsort_spikes
           split: if_splits sum.splits prod.splits option.splits)

lemma omp_main_loop:
  assumes "traces_fit d traces" "list_all (\<lambda>i. i < num_templates_op d) (ignored_ids_op d)"
    and "nafter_op d + nbefore_op d \<le> length traces"
    and "num_peaks = length traces + 1 - (nafter_op d + nbefore_op d)"
    and "scalar_products = omp_scores d traces num_peaks"
    and "omp_loop d num_peaks scalar_products (omp_init d scalar_products num_peaks) = Inr st"
  shows "omp_main d traces = Inr (omp_finish d (final_amplitudes_st st))"
proof -
  have a: "\<not> length traces + 1 < nafter_op d + nbefore_op d" using assms(3) by simp
  have b: "\<not> (0 < length traces \<and> length traces < nafter_op d + nbefore_op d \<and>
              0 < length (spatial_op d) \<and> 0 < num_templates_op d)" using assms(3) by simp
  show ?thesis
    unfolding omp_main_def Let_def assms(4) [symmetric] assms(5) [symmetric]
    by (simp only: a b assms(1,2) assms(6) not_True_eq_False if_False sum.case)
qed

text \<open>
  C4. If, in a pass of the OMP loop, the code computes \<open>Lkk = 1 - nrm2(x) ** 2\<close> and finds
  \<open>Lkk \<le> omp_tol\<close>, then \<open>main_function\<close> raises nothing and returns an array that is
  in ascending order of \<open>sample_index\<close> and holds one detection for each amplitude, fitted
  by the passes before, that lies inside the band, and nothing else. The pass is the one
  that follows \<open>k\<close> complete passes from the initial state; the dictionary has the shapes
  that the initialiser builds, the traces have the channels of \<open>spatial\<close> and are at least
  as long as a template, and the ignored ids are indices of templates, so that nothing is
  raised before the loop.
\<close>

theorem omp_dependent_atoms_return:
  assumes "omp_shapes d" and "traces_fit d traces"
    and "list_all (\<lambda>i. i < num_templates_op d) (ignored_ids_op d)"
    and "nafter_op d + nbefore_op d \<le> length traces"
    and "num_peaks = length traces + 1 - (nafter_op d + nbefore_op d)"
    and "scalar_products = omp_scores d traces num_peaks"
    and "omp_passes k d num_peaks scalar_products (omp_init d scalar_products num_peaks) = Some st"
    and "omp_valid d (scalar_products_st st) = x # xs"
    and "argmax_first x xs = (best_amplitude, best_cluster_ind, peak_index)"
    and "snd (snd (omp_cholesky d (best_cluster_ind, peak_index) st)) = Some Lkk"
    and "Lkk \<le> omp_tol"
  shows "\<exists>out. omp_main d traces = Inr out \<and> sorted (map sample_index out) \<and> distinct out \<and>
           (\<forall>s. s \<in> set out \<longleftrightarrow>
              (\<exists>n p. n < length (final_amplitudes_st st) \<and> p < length (final_amplitudes_st st ! n) \<and>
                  fst (amplitudes_op d) < final_amplitudes_st st ! n ! p \<and>
                  final_amplitudes_st st ! n ! p < snd (amplitudes_op d) \<and>
                  s = \<lparr>sample_index = int p + int (nbefore_op d), channel_index = 0,
                       cluster_index = n, amplitude = final_amplitudes_st st ! n ! p\<rparr>))"
proof -
  have "omp_iteration d num_peaks scalar_products (argmax_first x xs) st = Break"
    unfolding assms(9) using assms(10,11) by (rule omp_iteration_Break)
  then have "omp_loop d num_peaks scalar_products st = Inr st"
    by (subst omp_loop.simps) (simp add: assms(8))
  with omp_passes_loop [OF assms(7)]
  have "omp_loop d num_peaks scalar_products (omp_init d scalar_products num_peaks) = Inr st"
    by simp
  from omp_main_loop [OF assms(2,3,4,5,6) this]
  have "omp_main d traces = Inr (omp_finish d (final_amplitudes_st st))" .
  moreover have "sorted (map sample_index (omp_finish d (final_amplitudes_st st)))"
    by (simp add: omp_finish_def sorted_argsort_spikes)
  moreover have "distinct (omp_finish d (final_amplitudes_st st))"
    by (simp add: omp_finish_def distinct_argsort_spikes distinct_omp_output_filter)
  moreover have "s \<in> set (omp_finish d (final_amplitudes_st st)) \<longleftrightarrow>
              (\<exists>n p. n < length (final_amplitudes_st st) \<and> p < length (final_amplitudes_st st ! n) \<and>
                  fst (amplitudes_op d) < final_amplitudes_st st ! n ! p \<and>
                  final_amplitudes_st st ! n ! p < snd (amplitudes_op d) \<and>
                  s = \<lparr>sample_index = int p + int (nbefore_op d), channel_index = 0,
                       cluster_index = n, amplitude = final_amplitudes_st st ! n ! p\<rparr>)" for s
    unfolding omp_finish_def set_argsort_spikes by (rule omp_output_filter_set)
  ultimately show ?thesis by blast
qed


text \<open>
  The example: the overlaps are those of the two templates, the trace has the sample 1 at
  time 1. The first pass selects template 0 at time 0; its window of the score update ends
  before time 1, where template 1 keeps its score 1 and is selected by the second pass,
  although it is the same signal: \<open>Lkk = 0\<close>.
\<close>

lemma omp_shifted_overlaps:
  "compute_overlaps [[[0], [1]], [[1], [0]]] 2 1 [[0], [0]] = Some (overlaps_op omp_shifted_example)"
proof -
  have "compute_overlaps [[[0], [1]], [[1], [0]]] 2 1 [[0], [0]] =
          Some [[[0, 0, 1], [0, 0, 0]], [[0, 1, 0], [0, 0, 1]]]"
    by code_simp
  then show ?thesis by (simp add: omp_shifted_example_def)
qed

lemma omp_shifted_scores:
  "omp_scores omp_shifted_example [[0], [1], [0]] 2 = [[Fin 1, Fin 0], [Fin 0, Fin 1]]"
  by (simp add: omp_scores_def omp_shifted_example_def valid_convolve_def dot_def eval_nat_numeral)

lemma omp_shifted_valid0:
  "omp_valid omp_shifted_example [[Fin 1, Fin 0], [Fin 0, Fin 1]] = [(1, 0, 0), (1, 1, 1)]"
  by (simp add: omp_valid_def omp_shifted_example_def eval_nat_numeral)

lemma omp_shifted_cholesky0:
  "omp_cholesky omp_shifted_example (0, 0)
     (omp_init omp_shifted_example [[Fin 1, Fin 0], [Fin 0, Fin 1]] 2) = (\<lambda>i j. 0, 100, None)"
  by (simp add: omp_cholesky_def omp_init_def omp_shifted_example_def)

lemma omp_shifted_iteration0:
  "omp_iteration omp_shifted_example 2 [[Fin 1, Fin 0], [Fin 0, Fin 1]] (1, 0, 0)
     (omp_init omp_shifted_example [[Fin 1, Fin 0], [Fin 0, Fin 1]] 2) = Next omp_shifted_state"
  unfolding omp_iteration_def Let_def prod.case omp_shifted_cholesky0
  by (simp add: omp_refit_def omp_init_def omp_shifted_example_def potrs_def solve_lower_def
        solve_upper_T_def Let_def set_entries_def omp_tol_def omp_subtract_def slice_update_def
        omp_shifted_state_def eval_nat_numeral)

lemma omp_shifted_passes:
  "omp_passes (Suc 0) omp_shifted_example 2 [[Fin 1, Fin 0], [Fin 0, Fin 1]]
     (omp_init omp_shifted_example [[Fin 1, Fin 0], [Fin 0, Fin 1]] 2) = Some omp_shifted_state"
proof -
  have v: "omp_valid omp_shifted_example
             (scalar_products_st (omp_init omp_shifted_example [[Fin 1, Fin 0], [Fin 0, Fin 1]] 2)) =
             [(1, 0, 0), (1, 1, 1)]"
    by (simp add: omp_init_def omp_shifted_valid0)
  show ?thesis by (simp add: v omp_shifted_iteration0)
qed

lemma omp_shifted_valid1:
  "omp_valid omp_shifted_example (scalar_products_st omp_shifted_state) = [(1, 1, 1)]"
  by (simp add: omp_valid_def omp_shifted_example_def omp_shifted_state_def eval_nat_numeral)

lemma omp_shifted_Lkk:
  "snd (snd (omp_cholesky omp_shifted_example (1, 1) omp_shifted_state)) = Some 0"
  by (simp add: omp_cholesky_def omp_shifted_example_def omp_shifted_state_def Let_def set_row_def
        solve_lower_def nrm2_def eval_nat_numeral)

lemma omp_shifted_finish:
  "omp_finish omp_shifted_example (final_amplitudes_st omp_shifted_state) =
     [\<lparr>sample_index = 1, channel_index = 0, cluster_index = 0, amplitude = 1\<rparr>]"
  by (simp add: omp_finish_def argsort_spikes_def omp_output_filter_def omp_shifted_example_def
        omp_shifted_state_def eval_nat_numeral)


theorem omp_dependent_atoms_return_witness:
  "omp_shapes omp_shifted_example \<and> traces_fit omp_shifted_example [[0], [1], [0]] \<and>
   list_all (\<lambda>i. i < num_templates_op omp_shifted_example) (ignored_ids_op omp_shifted_example) \<and>
   nafter_op omp_shifted_example + nbefore_op omp_shifted_example \<le> length [[0], [1], [0::real]] \<and>
   2 = length [[0], [1], [0::real]] + 1 - (nafter_op omp_shifted_example + nbefore_op omp_shifted_example) \<and>
   [[Fin 1, Fin 0], [Fin 0, Fin 1]] = omp_scores omp_shifted_example [[0], [1], [0]] 2 \<and>
   omp_passes (Suc 0) omp_shifted_example 2 [[Fin 1, Fin 0], [Fin 0, Fin 1]]
     (omp_init omp_shifted_example [[Fin 1, Fin 0], [Fin 0, Fin 1]] 2) = Some omp_shifted_state \<and>
   omp_valid omp_shifted_example (scalar_products_st omp_shifted_state) = [(1, 1, 1)] \<and>
   argmax_first (1, 1, 1) [] = (1, 1, 1) \<and>
   snd (snd (omp_cholesky omp_shifted_example (1, 1) omp_shifted_state)) = Some 0 \<and>
   (0::real) \<le> omp_tol \<and>
   omp_main omp_shifted_example [[0], [1], [0]] =
     Inr [\<lparr>sample_index = 1, channel_index = 0, cluster_index = 0, amplitude = 1\<rparr>] \<and>
   (\<exists>out. omp_main omp_shifted_example [[0], [1], [0]] = Inr out \<and>
      sorted (map sample_index out) \<and> distinct out \<and>
      (\<forall>s. s \<in> set out \<longleftrightarrow>
         (\<exists>n p. n < length (final_amplitudes_st omp_shifted_state) \<and>
             p < length (final_amplitudes_st omp_shifted_state ! n) \<and>
             fst (amplitudes_op omp_shifted_example) < final_amplitudes_st omp_shifted_state ! n ! p \<and>
             final_amplitudes_st omp_shifted_state ! n ! p < snd (amplitudes_op omp_shifted_example) \<and>
             s = \<lparr>sample_index = int p + int (nbefore_op omp_shifted_example), channel_index = 0,
                  cluster_index = n, amplitude = final_amplitudes_st omp_shifted_state ! n ! p\<rparr>)))"
proof -
  have a: "omp_shapes omp_shifted_example"
    by (simp add: omp_shapes_def omp_shifted_example_def)
  have b: "traces_fit omp_shifted_example [[0], [1], [0]]"
    by (simp add: traces_fit_def omp_shifted_example_def)
  have c: "list_all (\<lambda>i. i < num_templates_op omp_shifted_example) (ignored_ids_op omp_shifted_example)"
    by (simp add: omp_shifted_example_def)
  have e: "nafter_op omp_shifted_example + nbefore_op omp_shifted_example \<le> length [[0], [1], [0::real]]"
    by (simp add: omp_shifted_example_def)
  have f: "2 = length [[0], [1], [0::real]] + 1 - (nafter_op omp_shifted_example + nbefore_op omp_shifted_example)"
    by (simp add: omp_shifted_example_def)
  have g: "[[Fin 1, Fin 0], [Fin 0, Fin 1]] = omp_scores omp_shifted_example [[0], [1], [0]] 2"
    by (simp add: omp_shifted_scores)
  have h: "argmax_first (1, 1, 1) [] = (1::real, 1::nat, 1::nat)" by simp
  have i: "(0::real) \<le> omp_tol" by (simp add: omp_tol_def)
  note r = omp_dependent_atoms_return
             [OF a b c e f g omp_shifted_passes omp_shifted_valid1 h omp_shifted_Lkk i]
  have loop: "omp_loop omp_shifted_example 2 [[Fin 1, Fin 0], [Fin 0, Fin 1]]
                (omp_init omp_shifted_example [[Fin 1, Fin 0], [Fin 0, Fin 1]] 2) = Inr omp_shifted_state"
  proof -
    have br: "omp_iteration omp_shifted_example 2 [[Fin 1, Fin 0], [Fin 0, Fin 1]] (1, 1, 1)
                omp_shifted_state = Break"
      by (rule omp_iteration_Break [OF omp_shifted_Lkk i])
    have "omp_loop omp_shifted_example 2 [[Fin 1, Fin 0], [Fin 0, Fin 1]] omp_shifted_state =
            Inr omp_shifted_state"
      by (subst omp_loop.simps)
         (simp only: omp_shifted_valid1 list.case argmax_first.simps br pass.case)
    with omp_passes_loop [OF omp_shifted_passes] show ?thesis by simp
  qed
  have m: "omp_main omp_shifted_example [[0], [1], [0]] =
     Inr [\<lparr>sample_index = 1, channel_index = 0, cluster_index = 0, amplitude = 1\<rparr>]"
    using omp_main_loop [OF b c e f g loop] by (simp only: omp_shifted_finish)
  from a b c e f g omp_shifted_passes omp_shifted_valid1 h omp_shifted_Lkk i m r
  show ?thesis by (intro conjI)
qed

text \<open>
  C6 (as amended). The detections that the OMP peeler returns are those of the pairs
  \<open>(n, p)\<close> whose fitted amplitude lies strictly inside the band, \<open>a_min < \<alpha>[n, p] < a_max\<close>,
  each with \<open>sample_index = p + nbefore\<close>, \<open>channel_index = 0\<close>, \<open>cluster_index = n\<close> and
  that amplitude.
\<close>

theorem omp_output_filter_iff:
  "s \<in> set (omp_finish d final_amplitudes) \<longleftrightarrow>
     (\<exists>n p. n < length final_amplitudes \<and> p < length (final_amplitudes ! n) \<and>
         fst (amplitudes_op d) < final_amplitudes ! n ! p \<and>
         final_amplitudes ! n ! p < snd (amplitudes_op d) \<and>
         s = \<lparr>sample_index = int p + int (nbefore_op d), channel_index = 0,
              cluster_index = n, amplitude = final_amplitudes ! n ! p\<rparr>)"
  by (auto simp: omp_finish_def argsort_spikes_def omp_output_filter_def split: if_splits)


text \<open>
  C6 as the specification words it, with the closed band, fails on the bounds: with the
  band \<open>(1 / 2, 2)\<close> an amplitude of exactly 2 is inside \<open>[a_min, a_max]\<close> and is not
  emitted.
\<close>

theorem omp_output_filter_counterexample:
  "fst (amplitudes_op omp_example) \<le> [[2]] ! 0 ! 0 \<and> [[2]] ! 0 ! 0 \<le> snd (amplitudes_op omp_example) \<and>
   omp_finish omp_example [[2]] = []"
  by (simp add: omp_finish_def argsort_spikes_def omp_output_filter_def omp_example_def)

text \<open>
  C7. Whatever the traces, the array that either \<open>main_function\<close> returns is in ascending
  order of \<open>sample_index\<close>.
\<close>

theorem output_sorted:
  "(omp_main d traces = Inr out \<longrightarrow> sorted (map sample_index out)) \<and>
   (greedy_main detect_peaks g traces' = Some (Inr out') \<longrightarrow> sorted (map sample_index out'))"
  using omp_main_sorted greedy_main_sorted by blast


text \<open>
  Two runs with two detections each. The OMP peeler lists the amplitudes inside the band
  template by template, here at the times 3 and 1; the greedy peeler appends the
  detections as it selects them, the larger score first, here at the times 6 and 3.
\<close>

lemma omp_two_channel_scores:
  "omp_scores omp_two_channel_example [[0, 1], [0, 0], [1, 0], [0, 0]] 3 =
     [[Fin 0, Fin 0, Fin 1], [Fin 1, Fin 0, Fin 0]]"
  by (simp add: omp_scores_def omp_two_channel_example_def valid_convolve_def dot_def
        eval_nat_numeral)

lemma omp_two_channel_cholesky0:
  "omp_cholesky omp_two_channel_example (0, 2)
     (omp_init omp_two_channel_example [[Fin 0, Fin 0, Fin 1], [Fin 1, Fin 0, Fin 0]] 3) =
     (\<lambda>i j. 0, 100, None)"
  by (simp add: omp_cholesky_def omp_init_def omp_two_channel_example_def)

lemma omp_two_channel_iteration0:
  "omp_iteration omp_two_channel_example 3 [[Fin 0, Fin 0, Fin 1], [Fin 1, Fin 0, Fin 0]] (1, 0, 2)
     (omp_init omp_two_channel_example [[Fin 0, Fin 0, Fin 1], [Fin 1, Fin 0, Fin 0]] 3) =
     Next omp_two_channel_state"
  unfolding omp_iteration_def Let_def prod.case omp_two_channel_cholesky0
  by (simp add: omp_refit_def omp_init_def omp_two_channel_example_def potrs_def solve_lower_def
        solve_upper_T_def Let_def set_entries_def omp_tol_def omp_subtract_def slice_update_def
        omp_two_channel_state_def eval_nat_numeral)

lemma omp_two_channel_cholesky1:
  "omp_cholesky omp_two_channel_example (1, 0) omp_two_channel_state =
     (((\<lambda>i j. 0)(0 := (\<lambda>j. 0)(0 := 1)))(Suc 0 := (((\<lambda>i j. 0)(0 := (\<lambda>j. 0)(0 := 1))) (Suc 0))(0 := 0)),
      100, Some 1)"
  by (simp add: omp_cholesky_def omp_two_channel_example_def omp_two_channel_state_def Let_def
        set_row_def solve_lower_def nrm2_def eval_nat_numeral)

lemma omp_two_channel_iteration1:
  "\<exists>M. omp_iteration omp_two_channel_example 3 [[Fin 0, Fin 0, Fin 1], [Fin 1, Fin 0, Fin 0]] (1, 1, 0)
     omp_two_channel_state =
     Next \<lparr>scalar_products_st = [[Fin 0, Fin 0, Fin 0], [Fin 0, Fin 0, Fin 0]], M_st = M,
           M_shape_st = 100, selection_st = [(0, 2), (1, 0)],
           final_amplitudes_st = [[0, 0, 1], [1, 0, 0]]\<rparr>"
  unfolding omp_iteration_def Let_def prod.case omp_two_channel_cholesky1
  by (simp add: omp_refit_def omp_two_channel_example_def potrs_def solve_lower_def
        solve_upper_T_def Let_def set_entries_def omp_tol_def omp_subtract_def slice_update_def
        omp_two_channel_state_def eval_nat_numeral)


lemma omp_two_channel_run:
  "omp_main omp_two_channel_example [[0, 1], [0, 0], [1, 0], [0, 0]] =
     Inr [\<lparr>sample_index = 1, channel_index = 0, cluster_index = 1, amplitude = 1\<rparr>,
          \<lparr>sample_index = 3, channel_index = 0, cluster_index = 0, amplitude = 1\<rparr>]"
proof -
  let ?d = omp_two_channel_example
  let ?sps = "[[Fin 0, Fin 0, Fin 1], [Fin 1, Fin 0, Fin 0]]"
  obtain M where it1: "omp_iteration ?d 3 ?sps (1, 1, 0) omp_two_channel_state =
     Next \<lparr>scalar_products_st = [[Fin 0, Fin 0, Fin 0], [Fin 0, Fin 0, Fin 0]], M_st = M,
           M_shape_st = 100, selection_st = [(0, 2), (1, 0)],
           final_amplitudes_st = [[0, 0, 1], [1, 0, 0]]\<rparr>"
    using omp_two_channel_iteration1 by blast
  let ?st2 = "\<lparr>scalar_products_st = [[Fin 0, Fin 0, Fin 0], [Fin 0, Fin 0, Fin 0]], M_st = M,
           M_shape_st = 100, selection_st = [(0, 2), (1, 0)],
           final_amplitudes_st = [[0, 0, 1], [1, 0, 0]]\<rparr>"
  have v0: "omp_valid ?d (scalar_products_st (omp_init ?d ?sps 3)) = [(1, 0, 2), (1, 1, 0)]"
    by (simp add: omp_valid_def omp_init_def omp_two_channel_example_def eval_nat_numeral)
  have v1: "omp_valid ?d (scalar_products_st omp_two_channel_state) = [(1, 1, 0)]"
    by (simp add: omp_valid_def omp_two_channel_state_def omp_two_channel_example_def eval_nat_numeral)
  have v2: "omp_valid ?d (scalar_products_st ?st2) = []"
    by (simp add: omp_valid_def omp_two_channel_example_def eval_nat_numeral)
  have a0: "argmax_first (1, 0, 2) [(1, 1, 0)] = (1::real, 0::nat, 2::nat)" by simp
  have a1: "argmax_first (1, 1, 0) [] = (1::real, 1::nat, 0::nat)" by simp
  have l2: "omp_loop ?d 3 ?sps ?st2 = Inr ?st2"
    by (subst omp_loop.simps) (simp only: v2 list.case)
  have l1: "omp_loop ?d 3 ?sps omp_two_channel_state = Inr ?st2"
    by (subst omp_loop.simps) (simp only: v1 list.case a1 it1 pass.case l2)
  have l0: "omp_loop ?d 3 ?sps (omp_init ?d ?sps 3) = Inr ?st2"
    by (subst omp_loop.simps) (simp only: v0 list.case a0 omp_two_channel_iteration0 pass.case l1)
  have b: "traces_fit ?d [[0, 1], [0, 0], [1, 0], [0, 0]]"
    by (simp add: traces_fit_def omp_two_channel_example_def)
  have c: "list_all (\<lambda>i. i < num_templates_op ?d) (ignored_ids_op ?d)"
    by (simp add: omp_two_channel_example_def)
  have e: "nafter_op ?d + nbefore_op ?d \<le> length [[0, 1], [0, 0], [1, 0], [0, 0::real]]"
    by (simp add: omp_two_channel_example_def)
  have f: "3 = length [[0, 1], [0, 0], [1, 0], [0, 0::real]] + 1 - (nafter_op ?d + nbefore_op ?d)"
    by (simp add: omp_two_channel_example_def)
  have g: "?sps = omp_scores ?d [[0, 1], [0, 0], [1, 0], [0, 0]] 3"
    by (simp add: omp_two_channel_scores)
  have fin: "omp_finish ?d (final_amplitudes_st ?st2) =
     [\<lparr>sample_index = 1, channel_index = 0, cluster_index = 1, amplitude = 1\<rparr>,
      \<lparr>sample_index = 3, channel_index = 0, cluster_index = 0, amplitude = 1\<rparr>]"
    by (simp add: omp_finish_def argsort_spikes_def omp_output_filter_def omp_two_channel_example_def
          eval_nat_numeral)
  from omp_main_loop [OF b c e f g l0] show ?thesis by (simp only: fin)
qed

lemma omp_two_channel_emitted:
  "omp_output_filter omp_two_channel_example [[0, 0, 1], [1, 0, 0]] =
     [\<lparr>sample_index = 3, channel_index = 0, cluster_index = 0, amplitude = 1\<rparr>,
      \<lparr>sample_index = 1, channel_index = 0, cluster_index = 1, amplitude = 1\<rparr>]"
  by (simp add: omp_output_filter_def omp_two_channel_example_def eval_nat_numeral)

lemma greedy_two_run:
  "greedy_main (\<lambda>peak_traces. ([2, 5], [0, 0])) greedy_example
     [[0], [0], [0], [2], [0], [0], [5 / 2], [0], [0]] =
     Some (Inr [\<lparr>sample_index = 3, channel_index = 0, cluster_index = 0, amplitude = 1\<rparr>,
                \<lparr>sample_index = 6, channel_index = 0, cluster_index = 0, amplitude = 5 / 4\<rparr>])"
  by code_simp

lemma greedy_two_emitted:
  "map_option snd (greedy_loop greedy_example [3, 6] [0, 0] ([[Fin 2, Fin (5 / 2)]], [])) =
     Some [\<lparr>sample_index = 6, channel_index = 0, cluster_index = 0, amplitude = 5 / 2\<rparr>,
           \<lparr>sample_index = 3, channel_index = 0, cluster_index = 0, amplitude = 2\<rparr>]"
  by code_simp


theorem output_sorted_witness:
  "omp_main omp_two_channel_example [[0, 1], [0, 0], [1, 0], [0, 0]] =
     Inr [\<lparr>sample_index = 1, channel_index = 0, cluster_index = 1, amplitude = 1\<rparr>,
          \<lparr>sample_index = 3, channel_index = 0, cluster_index = 0, amplitude = 1\<rparr>] \<and>
   greedy_main (\<lambda>peak_traces. ([2, 5], [0, 0])) greedy_example
     [[0], [0], [0], [2], [0], [0], [5 / 2], [0], [0]] =
     Some (Inr [\<lparr>sample_index = 3, channel_index = 0, cluster_index = 0, amplitude = 1\<rparr>,
                \<lparr>sample_index = 6, channel_index = 0, cluster_index = 0, amplitude = 5 / 4\<rparr>]) \<and>
   sorted (map sample_index
     [\<lparr>sample_index = 1, channel_index = 0, cluster_index = 1, amplitude = 1\<rparr>,
      \<lparr>sample_index = 3, channel_index = 0, cluster_index = 0, amplitude = 1\<rparr>]) \<and>
   sorted (map sample_index
     [\<lparr>sample_index = 3, channel_index = 0, cluster_index = 0, amplitude = 1\<rparr>,
      \<lparr>sample_index = 6, channel_index = 0, cluster_index = 0, amplitude = 5 / 4\<rparr>]) \<and>
   map sample_index (omp_output_filter omp_two_channel_example [[0, 0, 1], [1, 0, 0]]) = [3, 1] \<and>
   map_option (map sample_index \<circ> snd)
     (greedy_loop greedy_example [3, 6] [0, 0] ([[Fin 2, Fin (5 / 2)]], [])) = Some [6, 3]"
proof -
  have e1: "map sample_index (omp_output_filter omp_two_channel_example [[0, 0, 1], [1, 0, 0]]) = [3, 1]"
    by (simp add: omp_two_channel_emitted)
  have e2: "map_option (map sample_index \<circ> snd)
     (greedy_loop greedy_example [3, 6] [0, 0] ([[Fin 2, Fin (5 / 2)]], [])) = Some [6, 3]"
    using greedy_two_emitted by (auto simp: map_option_case split: option.splits)
  from output_sorted [of omp_two_channel_example "[[0, 1], [0, 0], [1, 0], [0, 0]]" _
      "\<lambda>peak_traces. ([2, 5], [0, 0])" greedy_example
      "[[0], [0], [0], [2], [0], [0], [5 / 2], [0], [0]]"]
    omp_two_channel_run greedy_two_run e1 e2
  show ?thesis by blast
qed

subsection \<open>Inputs on which the OMP peeler raises\<close>

text \<open>
  An ignored id that is not the index of a template, traces with two channels for
  templates on one channel, and a trace of one sample for templates of two samples make
  \<open>main_function\<close> raise before the loop. An empty trace with a template of one sample
  does not: there is no position, and the result is the empty array.
\<close>

lemma omp_main_ignored_id_raises:
  "omp_main (omp_example\<lparr>ignored_ids_op := [5]\<rparr>) [[0], [0]] = Inl IndexError"
  by (simp add: omp_main_def omp_example_def traces_fit_def)

lemma omp_main_channel_mismatch_raises:
  "omp_main omp_example [[1, 5], [0, 7]] = Inl ValueError"
  by (simp add: omp_main_def omp_example_def traces_fit_def)

lemma omp_main_short_trace_raises:
  "omp_main omp_example [[1]] = Inl ValueError"
  by (simp add: omp_main_def omp_example_def traces_fit_def)

lemma omp_main_empty_trace_returns:
  "omp_main (omp_example\<lparr>nbefore_op := 0, temporal_op := [[[1]]], overlaps_op := [[[0]]]\<rparr>) [] = Inr []"
proof -
  let ?d = "omp_example\<lparr>nbefore_op := 0, temporal_op := [[[1]]], overlaps_op := [[[0]]]\<rparr>"
  have s: "omp_scores ?d [] 0 = [[]]" by (simp add: omp_scores_def omp_example_def)
  have v: "omp_valid ?d [[]] = []" by (simp add: omp_valid_def)
  have l: "omp_loop ?d 0 [[]] (omp_init ?d [[]] 0) = Inr (omp_init ?d [[]] 0)"
    by (subst omp_loop.simps) (simp add: omp_init_def v)
  have f: "omp_finish ?d (final_amplitudes_st (omp_init ?d [[]] 0)) = []"
    by (simp add: omp_finish_def argsort_spikes_def omp_output_filter_def omp_init_def omp_example_def)
  have g: "nafter_op ?d + nbefore_op ?d = Suc 0" by (simp add: omp_example_def)
  show ?thesis
    unfolding omp_main_def Let_def g
    by (simp add: traces_fit_def s l f) (simp add: omp_example_def)
qed


subsection \<open>A trace of zeros\<close>


lemma dot_zero_right: "list_all (\<lambda>x. x = 0) row \<Longrightarrow> dot w row = 0"
  unfolding dot_def
proof (induction w arbitrary: row)
  case Nil
  then show ?case by simp
next
  case (Cons a w)
  then show ?case by (cases row) simp_all
qed







text \<open>
  For any peaks that a detector may report on a trace of zeros, the scores of the greedy
  peeler are 0 there, and no position is valid when no band contains 0.
\<close>

lemma those_Some_set: "those xs = Some ys \<Longrightarrow> y \<in> set ys \<Longrightarrow> Some y \<in> set xs"
proof (induction xs arbitrary: ys)
  case Nil
  then show ?case by simp
next
  case (Cons a xs)
  then show ?case by (auto split: option.splits)
qed

lemma py_nth_in_set: "py_nth xs i = Some x \<Longrightarrow> x \<in> set xs"
  by (auto simp: py_nth_def Let_def split: if_splits)

lemma greedy_snippets_zero:
  assumes "zero_traces traces" "greedy_snippets g traces ts = Inr snippets" "s \<in> set snippets"
  shows "list_all (\<lambda>x. x = 0) s"
proof -
  have rows: "list_all (\<lambda>x. x = 0) row" if "row \<in> set traces" for row
    using assms(1) that by (simp add: zero_traces_def list_all_iff)
  have conc: "list_all (\<lambda>x. x = 0) (concat rs)" if "set rs \<subseteq> set traces" for rs
    using that rows by (auto simp: list_all_iff)
  show ?thesis
  proof (cases "sym_patch_gp g")
    case True
    with assms(2) obtain patches where
      p: "those (map (py_nth (extract_patches traces (fst (patch_sizes_gp g)))) ts) = Some patches"
      and sn: "snippets = map concat patches"
      by (auto simp: greedy_snippets_def those_or_raise_def split: if_splits option.splits)
    from assms(3) sn obtain patch where patch: "patch \<in> set patches" "s = concat patch" by auto
    from those_Some_set [OF p patch(1)] obtain t where
      "py_nth (extract_patches traces (fst (patch_sizes_gp g))) t = Some patch" by auto
    then have "patch \<in> set (extract_patches traces (fst (patch_sizes_gp g)))"
      by (rule py_nth_in_set)
    then have "set patch \<subseteq> set traces"
      by (auto simp: extract_patches_def dest: in_set_takeD in_set_dropD)
    with patch(2) show ?thesis by (simp add: conc)
  next
    case False
    with assms(2) obtain sns where
      p: "those (map (\<lambda>t. those (map (\<lambda>w. py_nth traces (t + int (margin_gp g div 2) + w))
                                     [- int (nbefore_gp g)..int (nafter_gp g) - 1])) ts) = Some sns"
      and sn: "snippets = map concat sns"
      by (auto simp: greedy_snippets_def those_or_raise_def split: if_splits option.splits)
    from assms(3) sn obtain rs where rs: "rs \<in> set sns" "s = concat rs" by auto
    from those_Some_set [OF p rs(1)] obtain t where
      t: "those (map (\<lambda>w. py_nth traces (t + int (margin_gp g div 2) + w))
                     [- int (nbefore_gp g)..int (nafter_gp g) - 1]) = Some rs" by auto
    have "set rs \<subseteq> set traces"
    proof
      fix r assume "r \<in> set rs"
      from those_Some_set [OF t this] show "r \<in> set traces"
        by (auto dest: py_nth_in_set py_nth_in_set [OF sym])
    qed
    with rs(2) show ?thesis by (simp add: conc)
  qed
qed

lemma greedy_valid_Nil:
  assumes "\<And>n p. n < length S \<Longrightarrow> p < length (S ! n) \<Longrightarrow>
             S ! n ! p = Fin 0 \<and> \<not> (min_sps g n < 0 \<and> 0 < max_sps g n)"
  shows "greedy_valid g S = []"
proof -
  have "(case S ! n ! p of NegInf \<Rightarrow> []
         | Fin v \<Rightarrow> if min_sps g n < v \<and> v < max_sps g n then [(v, n, p)] else []) = []"
    if "n < length S" "p < length (S ! n)" for n p
    using assms [OF that] by auto
  then show ?thesis by (simp add: greedy_valid_def)
qed

lemma greedy_main_zero:
  assumes "zero_traces traces" "greedy_bands_exclude_zero g"
  shows "greedy_main detect_peaks g traces = Some (Inr []) \<or>
         (\<exists>e. greedy_main detect_peaks g traces = Some (Inl e))"
proof -
  let ?pt = "py_slice traces (int (margin_gp g) div 2) (- int (margin_gp g) div 2)"
  obtain ts0 cs0 where det: "detect_peaks ?pt = (ts0, cs0)" by (cases "detect_peaks ?pt")
  obtain ts cs where jit: "jitter_peaks (jitter_gp g) (length ?pt) ts0 cs0 = (ts, cs)"
    by (cases "jitter_peaks (jitter_gp g) (length ?pt) ts0 cs0")
  show ?thesis
  proof (cases "greedy_snippets g traces ts")
    case (Inl e)
    then show ?thesis by (simp add: greedy_main_def Let_def det jit)
  next
    case (Inr snippets)
    let ?S = "greedy_scores g snippets"
    have "greedy_valid g ?S = []"
    proof (rule greedy_valid_Nil)
      fix n p assume n: "n < length ?S" and p: "p < length (?S ! n)"
      show "?S ! n ! p = Fin 0 \<and> \<not> (min_sps g n < 0 \<and> 0 < max_sps g n)"
      proof (cases "0 < length snippets")
        case True
        with n p have n': "n < length (templates_gp g)" and p': "p < length snippets"
          by (simp_all add: greedy_scores_def)
        from p' have "snippets ! p \<in> set snippets" by simp
        from greedy_snippets_zero [OF assms(1) Inr this]
        have "dot (templates_gp g ! n) (snippets ! p) = 0" by (rule dot_zero_right)
        moreover from assms(2) n' have "\<not> (min_sps g n < 0 \<and> 0 < max_sps g n)"
          by (simp add: greedy_bands_exclude_zero_def list_all_iff)
        ultimately show ?thesis using True n' p' by (simp add: greedy_scores_def)
      next
        case False
        with n p show ?thesis by (simp add: greedy_scores_def)
      qed
    qed
    then have "greedy_loop g (map (\<lambda>t. t + int (margin_gp g) div 2) ts) cs (?S, []) = Some (?S, [])"
      by (subst greedy_loop.simps) simp
    then show ?thesis
      by (simp add: greedy_main_def Let_def det jit Inr greedy_finish_def argsort_spikes_def)
  qed
qed









subsection \<open>The jittered peaks\<close>

text \<open>
  What \<open>jitter_peaks\<close> keeps for a positive jitter \<open>J\<close>: the times \<open>t + j\<close> with
  \<open>- J \<le> j < J\<close> that satisfy \<open>0 < t + j < len(peak_traces)\<close>, in ascending order and
  without repetition.
\<close>

lemma jitter_peaks_times:
  assumes "0 < J" "length ts = length cs"
  shows "set (fst (jitter_peaks J len ts cs)) =
         {t + j | t j. t \<in> set ts \<and> - J \<le> j \<and> j < J \<and> 0 < t + j \<and> t + j < int len}"
proof -
  have "fst ` set (zip ts cs) = set ts" using assms(2) by (metis map_fst_zip set_map)
  then have z: "(\<exists>c. (t, c) \<in> set (zip ts cs)) \<longleftrightarrow> t \<in> set ts" for t
    by force
  show ?thesis using assms(1)
    apply (simp add: jitter_peaks_def np_unique_def Let_def split: prod.splits)
    apply (auto simp: image_iff z [symmetric])
     apply force+
    done
qed

lemma jitter_peaks_sorted: "sorted (fst (jitter_peaks J len ts cs)) \<and> distinct (fst (jitter_peaks J len ts cs))"
  by (simp add: jitter_peaks_def np_unique_def Let_def split: prod.splits)



text \<open>
  C9. With a jitter of 1, the peak at time 1 is expanded to the times 0 and 1. Both are
  indices of a trimmed trace of 10 samples, but the mask \<open>jittered_peaks > 0\<close> discards
  time 0: only time 1 is kept.
\<close>

theorem jitter_peaks_discards_sample_zero:
  "jitter_peaks 1 10 [1] [0] = ([1], [0])"
  by code_simp



subsection \<open>The greedy peeler returns\<close>

text \<open>
  In \<open>main_function\<close> the peak times come from \<open>np.unique\<close>, so they are ascending, and
  the score matrix has one column for each of them: for a dictionary of fitting shapes and
  templates of at least one sample the greedy peeler returns or raises, it does not loop
  for ever.
\<close>

lemma length_those: "those xs = Some ys \<Longrightarrow> length ys = length xs"
proof (induction xs arbitrary: ys)
  case Nil
  then show ?case by simp
next
  case (Cons a xs)
  then show ?case by (auto split: option.splits)
qed

lemma length_greedy_snippets:
  "greedy_snippets d traces ts = Inr snippets \<Longrightarrow> length snippets = length ts"
  by (auto simp: greedy_snippets_def those_or_raise_def dest!: length_those
           split: if_splits option.splits)

lemma greedy_shapes_scores:
  assumes "greedy_config_ok d" "length snippets = length ts"
  shows "greedy_shapes d ts (greedy_scores d snippets)"
  using assms
  by (auto simp: greedy_config_ok_def greedy_shapes_def greedy_scores_def list_all_iff)

lemma greedy_main_returns:
  assumes "greedy_config_ok d" "0 < nafter_gp d + nbefore_gp d"
  shows "\<exists>r. greedy_main detect_peaks d traces = Some r"
proof -
  let ?pt = "py_slice traces (int (margin_gp d) div 2) (- int (margin_gp d) div 2)"
  obtain ts0 cs0 where det: "detect_peaks ?pt = (ts0, cs0)" by (cases "detect_peaks ?pt")
  obtain ts cs where jit: "jitter_peaks (jitter_gp d) (length ?pt) ts0 cs0 = (ts, cs)"
    by (cases "jitter_peaks (jitter_gp d) (length ?pt) ts0 cs0")
  show ?thesis
  proof (cases "greedy_snippets d traces ts")
    case (Inl e)
    then show ?thesis by (simp add: greedy_main_def Let_def det jit)
  next
    case (Inr snippets)
    let ?ts = "map (\<lambda>t. t + int (margin_gp d) div 2) ts"
    have "sorted ts" using jitter_peaks_sorted [of "jitter_gp d" "length ?pt" ts0 cs0] jit by simp
    then have s: "sorted ?ts" by (induction ts) auto
    have "length snippets = length ?ts" using length_greedy_snippets [OF Inr] by simp
    with assms(1) have sh: "greedy_shapes d ?ts (greedy_scores d snippets)"
      by (rule greedy_shapes_scores)
    from greedy_loop_bounded [OF s sh assms(2), of cs "[]"]
    obtain S' spikes' where "greedy_loop d ?ts cs (greedy_scores d snippets, []) = Some (S', spikes')"
      by blast
    then show ?thesis by (simp add: greedy_main_def Let_def det jit Inr)
  qed
qed


end
